theory Spec2Isabelle
  imports Complex_Main "HOL-Library.Word"
begin

section \<open>JavaScript values\<close>

text \<open>
  The services exchange JSON documents. A value is one of the JavaScript value kinds that
  can occur in them; an object is a mapping from property names to values, so two objects
  are equal when they have the same own properties with the same values. Strings are lists
  of 8-bit code units. A \<open>Date\<close> object is kept symbolically as the value it was
  constructed from.
\<close>

datatype jsval =
    JUndefined
  | JNull
  | JBool bool
  | JNum real
  | JStr string
  | JDate jsval
  | JArr "jsval list"
  | JObj "string \<Rightarrow> jsval option"

type_synonym obj = "string \<Rightarrow> jsval option"

datatype error = TypeError | RangeError | Failure string

text \<open>ToBoolean: \<open>undefined\<close>, \<open>null\<close>, \<open>false\<close>, \<open>0\<close> and \<open>""\<close> are falsy.\<close>

fun truthy :: "jsval \<Rightarrow> bool" where
  "truthy JUndefined = False"
| "truthy JNull = False"
| "truthy (JBool b) = b"
| "truthy (JNum n) = (n \<noteq> 0)"
| "truthy (JStr s) = (s \<noteq> [])"
| "truthy (JDate v) = True"
| "truthy (JArr xs) = True"
| "truthy (JObj m) = True"

text \<open>\<open>a || b\<close>: the left operand when it is truthy, the right one otherwise.\<close>

definition js_or :: "jsval \<Rightarrow> jsval \<Rightarrow> jsval" where
  "js_or a b = (if truthy a then a else b)"

text \<open>Decimal numerals, the property names of array elements and string positions.\<close>

function show_nat :: "nat \<Rightarrow> string" where
  "show_nat n =
     (if n < 10 then [char_of (48 + n)] else show_nat (n div 10) @ [char_of (48 + n mod 10)])"
  by pat_completeness auto
termination
  by (relation "measure id") auto

declare show_nat.simps [simp del]

definition index_map :: "jsval list \<Rightarrow> obj" where
  "index_map xs = map_of (zip (map show_nat [0..<length xs]) xs)"

text \<open>
  The own enumerable properties of a value, which is what the spread \<open>{...v}\<close> copies:
  the properties of an object, the elements of an array, the characters of a string, and
  nothing for the other kinds.
\<close>

fun own_props :: "jsval \<Rightarrow> obj" where
  "own_props (JObj m) = m"
| "own_props (JArr xs) = index_map xs"
| "own_props (JStr s) = index_map (map (\<lambda>ch. JStr [ch]) s)"
| "own_props v = Map.empty"

text \<open>
  Reading a property \<open>v.k\<close>. A property that is not an own property is read as
  \<open>undefined\<close>: what a value inherits from a built-in prototype (methods, \<open>length\<close>,
  the prototype itself) is never a string and never a key of a JSON payload, and the
  services either read keys of JSON payloads or hand the value read to
  \<open>sanitizeCustomValue\<close>, which treats every non-string alike. \<open>get_prop\<close> is the
  read that throws a \<open>TypeError\<close> on \<open>undefined\<close> and \<open>null\<close>; \<open>read_prop\<close> is used where
  the value has already been read from or tested.
\<close>

definition read_prop :: "jsval \<Rightarrow> string \<Rightarrow> jsval" where
  "read_prop v k = (case own_props v k of None \<Rightarrow> JUndefined | Some x \<Rightarrow> x)"

fun get_prop :: "jsval \<Rightarrow> string \<Rightarrow> error + jsval" where
  "get_prop JUndefined k = Inl TypeError"
| "get_prop JNull k = Inl TypeError"
| "get_prop v k = Inr (read_prop v k)"

text \<open>Optional chaining \<open>v?.k\<close>.\<close>

fun opt_prop :: "jsval \<Rightarrow> string \<Rightarrow> jsval" where
  "opt_prop JUndefined k = JUndefined"
| "opt_prop JNull k = JUndefined"
| "opt_prop v k = read_prop v k"

text \<open>
  The assignment \<open>result[k] = s\<close> of a string to a property of an object created by
  \<open>{}\<close>. The name \<open>__proto__\<close> is an accessor of \<open>Object.prototype\<close> whose setter
  ignores every value that is neither an object nor \<open>null\<close>, so that assignment creates no
  property.
\<close>

definition assign_string :: "obj \<Rightarrow> string \<Rightarrow> string \<Rightarrow> obj" where
  "assign_string result k s = (if k = ''__proto__'' then result else result(k \<mapsto> JStr s))"

text \<open>\<open>String.prototype.trim\<close> on 8-bit code units: white space and line terminators.\<close>

definition is_space :: "char \<Rightarrow> bool" where
  "is_space c = (c \<in> set [CHR 0x09, CHR 0x0A, CHR 0x0B, CHR 0x0C, CHR 0x0D, CHR 0x20, CHR 0xA0])"

definition trim :: "string \<Rightarrow> string" where
  "trim s = rev (dropWhile is_space (rev (dropWhile is_space s)))"

section \<open>Field extractor (DataExtractionService)\<close>

text \<open>A field descriptor \<open>{field_name, description}\<close> as the pipeline passes it.\<close>

record custom_field =
  field_name :: string
  description :: string

text \<open>
  The service instance: \<open>useAI\<close> is set when an API key is configured. The request to the
  completion endpoint together with the clean-up and \<open>JSON.parse\<close> of the reply is a
  collaborator: for a transcript and descriptors it either throws or yields the parsed value
  \<open>extractedData\<close>. \<open>openai_doctor\<close> is the same for the fixed five-field prompt, and
  \<open>regex_doctor\<close> stands for the five pattern matchers of \<open>extractWithRegex\<close>, which
  return a string each.
\<close>

record extraction_service =
  useAI :: bool
  openai_custom :: "string \<Rightarrow> custom_field list \<Rightarrow> error + jsval"
  openai_doctor :: "string \<Rightarrow> error + jsval"
  regex_doctor :: "string \<Rightarrow> string \<Rightarrow> string"

definition NotFound :: string where
  "NotFound = ''Not Found''"

definition sanitizeCustomValue :: "jsval \<Rightarrow> string" where
  "sanitizeCustomValue v =
     (case v of
        JStr s \<Rightarrow> if s = [] then NotFound else (if trim s = [] then NotFound else trim s)
      | _ \<Rightarrow> NotFound)"

definition getEmptyCustomFieldsData :: "custom_field list \<Rightarrow> obj" where
  "getEmptyCustomFieldsData customFields =
     fold (\<lambda>f result. assign_string result (field_name f) NotFound) customFields Map.empty"

text \<open>
  The sanitising loop of \<open>extractWithCustomFieldsAI\<close>: reading a property of a parsed
  value that is \<open>null\<close> throws, and the exception leaves the loop.
\<close>

fun sanitize_fields :: "jsval \<Rightarrow> custom_field list \<Rightarrow> obj \<Rightarrow> error + obj" where
  "sanitize_fields extractedData [] result = Inr result"
| "sanitize_fields extractedData (f # fs) result =
     (case get_prop extractedData (field_name f) of
        Inl e \<Rightarrow> Inl e
      | Inr v \<Rightarrow> sanitize_fields extractedData fs
                  (assign_string result (field_name f) (sanitizeCustomValue v)))"

definition extractWithCustomFieldsAI ::
    "extraction_service \<Rightarrow> string \<Rightarrow> custom_field list \<Rightarrow> error + obj" where
  "extractWithCustomFieldsAI svc transcript customFields =
     (case openai_custom svc transcript customFields of
        Inl e \<Rightarrow> Inl e
      | Inr extractedData \<Rightarrow> sanitize_fields extractedData customFields Map.empty)"

text \<open>
  \<open>extractWithCustomFields\<close> returns the mapping and the list of requests it sent to the
  completion endpoint (none or one).
\<close>

definition extractWithCustomFields ::
    "extraction_service \<Rightarrow> jsval \<Rightarrow> custom_field list
       \<Rightarrow> obj \<times> (string \<times> custom_field list) list" where
  "extractWithCustomFields svc transcript customFields =
     (case transcript of
        JStr t \<Rightarrow>
          if t = [] then (getEmptyCustomFieldsData customFields, [])
          else if customFields = [] then (Map.empty, [])
          else if useAI svc then
            (case extractWithCustomFieldsAI svc t customFields of
               Inr result \<Rightarrow> (result, [(t, customFields)])
             | Inl e \<Rightarrow> (getEmptyCustomFieldsData customFields, [(t, customFields)]))
          else (getEmptyCustomFieldsData customFields, [])
      | _ \<Rightarrow> (getEmptyCustomFieldsData customFields, []))"

text \<open>
  The legacy extractor for the five fixed doctor fields. Its results are strings throughout,
  so the mapping is kept as a mapping to strings.
\<close>

definition doctor_keys :: "string list" where
  "doctor_keys = [''doctor_name'', ''clinic_hospital_name'', ''phone_number'', ''email_id'', ''city'']"

definition sanitizeValue :: "jsval \<Rightarrow> string" where
  "sanitizeValue v = (case v of JStr s \<Rightarrow> if s = [] then [] else trim s | _ \<Rightarrow> [])"

definition extractWithAI :: "extraction_service \<Rightarrow> string \<Rightarrow> error + (string \<Rightarrow> string option)" where
  "extractWithAI svc transcript =
     (case openai_doctor svc transcript of
        Inl e \<Rightarrow> Inl e
      | Inr extractedData \<Rightarrow>
          (case get_prop extractedData ''doctor_name'' of
             Inl e \<Rightarrow> Inl e
           | Inr v \<Rightarrow>
               Inr (map_of (map (\<lambda>k. (k, sanitizeValue (read_prop extractedData k))) doctor_keys))))"

definition extractWithRegex :: "extraction_service \<Rightarrow> string \<Rightarrow> (string \<Rightarrow> string option)" where
  "extractWithRegex svc transcript =
     map_of (map (\<lambda>k. (k, regex_doctor svc k transcript)) doctor_keys)"

definition getEmptyDoctorInfo :: "string \<Rightarrow> string option" where
  "getEmptyDoctorInfo = map_of (map (\<lambda>k. (k, [])) doctor_keys)"

definition extractDoctorInfo ::
    "extraction_service \<Rightarrow> jsval
       \<Rightarrow> (string \<Rightarrow> string option) \<times> (string \<times> custom_field list) list" where
  "extractDoctorInfo svc transcript =
     (case transcript of
        JStr t \<Rightarrow>
          if t = [] then (getEmptyDoctorInfo, [])
          else if useAI svc then
            (case extractWithAI svc t of
               Inr info \<Rightarrow> (info, [(t, [])])
             | Inl e \<Rightarrow> (extractWithRegex svc t, [(t, [])]))
          else (extractWithRegex svc t, [])
      | _ \<Rightarrow> (getEmptyDoctorInfo, []))"

definition hasValidData :: "(string \<Rightarrow> string option) \<Rightarrow> bool" where
  "hasValidData extractedData = (\<exists>v \<in> ran extractedData. v \<noteq> [] \<and> trim v \<noteq> [])"

text \<open>
  The test of the custom-fields pipeline:
  \<open>Object.values(extractedData).some(value => value !== 'Not Found')\<close>.
\<close>

definition hasFoundData :: "obj \<Rightarrow> bool" where
  "hasFoundData extractedData = (\<exists>v \<in> ran extractedData. v \<noteq> JStr NotFound)"

section \<open>Documents, collaborators and the state of the pipeline\<close>

text \<open>
  Modelled from the spec: the Mongoose schemas of the \<open>Execution\<close> and \<open>Agent\<close> models
  are not among the sources. An \<open>Execution\<close> document has its \<open>_id\<close> (\<open>oid\<close>) and the
  fields \<open>upsertExecution\<close> writes, each holding the value written; the remote execution id
  is its unique key, as the specification says. Of an \<open>Agent\<close> and a \<open>Client\<close> the
  documents have the fields the step reads.
\<close>

record execution =
  oid :: string
  bolna_execution_id :: jsval
  agent_id :: jsval
  conversation_time :: jsval
  total_cost :: jsval
  status :: jsval
  telephony_provider :: jsval
  from_number :: jsval
  to_number :: jsval
  call_sid :: jsval
  extracted_data :: jsval
  transcript :: jsval
  metadata :: jsval
  started_at :: jsval
  ended_at :: jsval

record agent =
  agent_oid :: jsval
  client_id :: jsval
  agent_name :: jsval

record client =
  google_authorized :: bool
  google_sheet_id :: jsval

text \<open>
  What the pipeline consumes from outside, each as a function of what it is called with:
  \<open>Agent.findById\<close>, the active \<open>ExtractionField\<close> documents of a client in display
  order, \<open>Client.findById\<close> (all of which may throw); \<open>googleSheetsService.appendRow\<close>,
  which throws on failure; \<open>sheetService.appendToCSV\<close>, which may throw, and
  \<open>sheetService.sendToGoogleAppsScript\<close>, which never throws and reports success by its
  result; whether \<open>SAVE_EMPTY_EXTRACTIONS\<close> is \<open>'true'\<close>; the clock; the \<open>Date\<close>
  formatters, which throw on a value that is not a valid date; the \<open>_id\<close> given to an
  inserted document; the floating-point division by 100 of a cost;
  \<open>Agent.findOne\<close> by remote agent id; and the paginated list endpoint of the remote
  platform (agent id, page number, page size), which throws or yields the response body.
\<close>

record collaborators =
  find_agent :: "jsval \<Rightarrow> error + agent option"
  find_fields :: "jsval \<Rightarrow> error + custom_field list"
  find_client :: "jsval \<Rightarrow> error + client option"
  appendRow :: "client \<Rightarrow> jsval list \<Rightarrow> error + unit"
  appendToCSV :: "obj \<Rightarrow> string \<Rightarrow> error + unit"
  sendToGoogleAppsScript :: "obj \<Rightarrow> bool"
  save_empty :: bool
  now :: jsval
  toISOString :: "jsval \<Rightarrow> error + string"
  toTimeString :: "jsval \<Rightarrow> error + string"
  new_oid :: string
  divide_by_100 :: "jsval \<Rightarrow> jsval"
  find_agent_by_bolna_id :: "jsval \<Rightarrow> error + agent option"
  fetchExecutionsForAgent :: "jsval \<Rightarrow> nat \<Rightarrow> nat \<Rightarrow> error + jsval"

text \<open>
  The state the pipeline changes: the \<open>Execution\<close> collection, a map from the remote
  execution id to the document, and what has been sent out so far: requests to the
  completion endpoint, rows appended to the spreadsheet, rows appended to CSV files and
  posts to the webhook. \<open>findOne\<close>, \<open>findOneAndUpdate\<close> and \<open>save\<close> on the collection
  are total operations on the map; the look-ups in the other collections can throw.
\<close>

record world =
  executions :: "jsval \<Rightarrow> execution option"
  ai_requests :: "(string \<times> custom_field list) list"
  sheet_rows :: "jsval list list"
  csv_rows :: "(string \<times> obj) list"
  webhook_posts :: "obj list"

datatype 'a outcome = Returned 'a | Thrown error

section \<open>Extraction-and-delivery step (processTranscriptForExtraction)\<close>

text \<open>
  The guard \<open>execution.extracted_data && execution.extracted_data._extraction_processed\<close>.
\<close>

definition extraction_processed :: "execution \<Rightarrow> bool" where
  "extraction_processed execution =
     (truthy (extracted_data execution) \<and>
      truthy (read_prop (extracted_data execution) ''_extraction_processed''))"

text \<open>\<open>s.split(sep)[0]\<close> for a one-character separator.\<close>

definition before_first :: "char \<Rightarrow> string \<Rightarrow> string" where
  "before_first sep s = takeWhile (\<lambda>ch. ch \<noteq> sep) s"

text \<open>
  The catch-all handler around the body of the step: the exception is logged and the
  function returns normally, keeping what had been changed before the throw.
\<close>

definition catch_and_log ::
    "unit outcome \<times> execution \<times> world \<Rightarrow> unit outcome \<times> execution \<times> world" where
  "catch_and_log r = (case r of (Thrown e, execution, w) \<Rightarrow> (Returned (), execution, w) | _ \<Rightarrow> r)"

subsection \<open>Custom-fields version\<close>

definition custom_metadata :: "collaborators \<Rightarrow> execution \<Rightarrow> agent \<Rightarrow> error + obj" where
  "custom_metadata c execution ag =
     (case (if truthy (started_at execution)
            then map_sum id (before_first CHR ''T'') (toISOString c (started_at execution))
            else Inr []) of
        Inl e \<Rightarrow> Inl e
      | Inr call_date \<Rightarrow>
          (case (if truthy (started_at execution)
                 then map_sum id (before_first CHR '' '') (toTimeString c (started_at execution))
                 else Inr []) of
             Inl e \<Rightarrow> Inl e
           | Inr call_time \<Rightarrow>
               Inr [''Call_Date'' \<mapsto> JStr call_date,
                    ''Call_Time'' \<mapsto> JStr call_time,
                    ''Execution_ID'' \<mapsto> js_or (bolna_execution_id execution) (JStr (oid execution)),
                    ''Agent_Name'' \<mapsto> js_or (agent_name ag) (JStr [])]))"

text \<open>
  One cell of the row, \<open>extractedData[f.field_name] || 'Not Found'\<close>. The mapping returned
  by the extractor has an own property for every field name but \<open>__proto__\<close>, which reads
  the (truthy) prototype object.
\<close>

definition row_cell :: "obj \<Rightarrow> string \<Rightarrow> jsval" where
  "row_cell extractedData k =
     (case extractedData k of
        Some v \<Rightarrow> js_or v (JStr NotFound)
      | None \<Rightarrow> if k = ''__proto__'' then JObj Map.empty else JStr NotFound)"

text \<open>
  The delivery block: when the client has authorised Google and bound a sheet, the row is
  appended; an exception of \<open>appendRow\<close> is caught on the spot.
\<close>

definition custom_deliver ::
    "collaborators \<Rightarrow> client option \<Rightarrow> custom_field list \<Rightarrow> obj \<Rightarrow> obj \<Rightarrow> world \<Rightarrow> world" where
  "custom_deliver c cl extractionFields extractedData meta w =
     (case cl of
        None \<Rightarrow> w
      | Some k \<Rightarrow>
          if google_authorized k \<and> truthy (google_sheet_id k) then
            (let values = map (\<lambda>f. row_cell extractedData (field_name f)) extractionFields
                          @ [read_prop (JObj meta) ''Call_Date'',
                             read_prop (JObj meta) ''Call_Time'',
                             read_prop (JObj meta) ''Execution_ID'',
                             read_prop (JObj meta) ''Agent_Name'']
             in case appendRow c k values of
                  Inl e \<Rightarrow> w
                | Inr u \<Rightarrow> w\<lparr>sheet_rows := sheet_rows w @ [values]\<rparr>)
          else w)"

text \<open>The update of \<open>execution.extracted_data\<close> and \<open>execution.save()\<close>.\<close>

definition custom_save ::
    "collaborators \<Rightarrow> execution \<Rightarrow> obj \<Rightarrow> obj \<Rightarrow> world \<Rightarrow> unit outcome \<times> execution \<times> world" where
  "custom_save c execution extractedData meta w =
     (let execution' = execution\<lparr>extracted_data :=
            JObj ((own_props (extracted_data execution))
                   (''custom_fields'' \<mapsto> JObj extractedData,
                    ''metadata'' \<mapsto> JObj meta,
                    ''_extraction_processed'' \<mapsto> JBool True,
                    ''_extraction_date'' \<mapsto> JDate (now c)))\<rparr>
      in (Returned (), execution',
          w\<lparr>executions := (executions w)(bolna_execution_id execution \<mapsto> execution')\<rparr>))"

text \<open>The branch taken when there is data to save.\<close>

definition custom_deliver_and_save ::
    "collaborators \<Rightarrow> execution \<Rightarrow> agent \<Rightarrow> custom_field list \<Rightarrow> obj \<Rightarrow> world
       \<Rightarrow> unit outcome \<times> execution \<times> world" where
  "custom_deliver_and_save c execution ag extractionFields extractedData w =
     (case custom_metadata c execution ag of
        Inl e \<Rightarrow> (Thrown e, execution, w)
      | Inr meta \<Rightarrow>
          (case find_client c (client_id ag) of
             Inl e \<Rightarrow> (Thrown e, execution, w)
           | Inr cl \<Rightarrow>
               custom_save c execution extractedData meta
                 (custom_deliver c cl extractionFields extractedData meta w)))"

text \<open>The part of the body that follows the look-up of the active fields.\<close>

definition custom_extract ::
    "extraction_service \<Rightarrow> collaborators \<Rightarrow> execution \<Rightarrow> agent \<Rightarrow> custom_field list \<Rightarrow> world
       \<Rightarrow> unit outcome \<times> execution \<times> world" where
  "custom_extract svc c execution ag extractionFields w =
     (let fieldsForAI = map (\<lambda>f. \<lparr>field_name = field_name f,
                                   description = description f\<rparr>) extractionFields;
          extracted = extractWithCustomFields svc (transcript execution) fieldsForAI;
          extractedData = fst extracted;
          w1 = w\<lparr>ai_requests := ai_requests w @ snd extracted\<rparr>
      in if hasFoundData extractedData \<or> save_empty c
         then custom_deliver_and_save c execution ag extractionFields extractedData w1
         else (Returned (), execution, w1))"

definition custom_body ::
    "extraction_service \<Rightarrow> collaborators \<Rightarrow> execution \<Rightarrow> world
       \<Rightarrow> unit outcome \<times> execution \<times> world" where
  "custom_body svc c execution w =
     (if extraction_processed execution then (Returned (), execution, w)
      else case find_agent c (agent_id execution) of
        Inl e \<Rightarrow> (Thrown e, execution, w)
      | Inr None \<Rightarrow> (Returned (), execution, w)
      | Inr (Some ag) \<Rightarrow>
          if \<not> truthy (client_id ag) then (Returned (), execution, w)
          else case find_fields c (client_id ag) of
            Inl e \<Rightarrow> (Thrown e, execution, w)
          | Inr extractionFields \<Rightarrow>
              if extractionFields = [] then (Returned (), execution, w)
              else custom_extract svc c execution ag extractionFields w)"

definition processTranscriptForExtraction_custom ::
    "extraction_service \<Rightarrow> collaborators \<Rightarrow> execution \<Rightarrow> world
       \<Rightarrow> unit outcome \<times> execution \<times> world" where
  "processTranscriptForExtraction_custom svc c execution w =
     catch_and_log (custom_body svc c execution w)"

subsection \<open>Legacy doctor-info version\<close>

definition legacy_sheetData ::
    "collaborators \<Rightarrow> execution \<Rightarrow> (string \<Rightarrow> string option) \<Rightarrow> error + obj" where
  "legacy_sheetData c execution extractedInfo =
     (case (if truthy (started_at execution)
            then map_sum id (before_first CHR ''T'') (toISOString c (started_at execution))
            else Inr []) of
        Inl e \<Rightarrow> Inl e
      | Inr call_date \<Rightarrow>
          (case (if truthy (started_at execution) then toISOString c (started_at execution)
                 else Inr []) of
             Inl e \<Rightarrow> Inl e
           | Inr call_time \<Rightarrow>
               Inr ((map_option JStr \<circ> extractedInfo)
                     (''call_date'' \<mapsto> JStr call_date,
                      ''call_time'' \<mapsto> JStr call_time,
                      ''execution_id'' \<mapsto> js_or (bolna_execution_id execution)
                                               (JStr (oid execution))))))"

text \<open>
  The deliveries of the legacy version: the row goes to the daily CSV file, which may throw,
  and then to the webhook, which reports failure by its result and never throws.
\<close>

definition legacy_deliver :: "collaborators \<Rightarrow> obj \<Rightarrow> world \<Rightarrow> error + world" where
  "legacy_deliver c sheetData w =
     (case toISOString c (now c) of
        Inl e \<Rightarrow> Inl e
      | Inr stamp \<Rightarrow>
          (let filename = ''doctor_data_'' @ before_first CHR ''T'' stamp @ ''.csv'' in
           case appendToCSV c sheetData filename of
             Inl e \<Rightarrow> Inl e
           | Inr u \<Rightarrow>
               (let w1 = w\<lparr>csv_rows := csv_rows w @ [(filename, sheetData)]\<rparr>;
                    delivered = sendToGoogleAppsScript c sheetData
                in Inr (w1\<lparr>webhook_posts := webhook_posts w1 @ [sheetData]\<rparr>))))"

definition legacy_save ::
    "collaborators \<Rightarrow> execution \<Rightarrow> (string \<Rightarrow> string option) \<Rightarrow> world
       \<Rightarrow> unit outcome \<times> execution \<times> world" where
  "legacy_save c execution extractedInfo w =
     (let execution' = execution\<lparr>extracted_data :=
            JObj ((own_props (extracted_data execution))
                   (''doctor_info'' \<mapsto> JObj (map_option JStr \<circ> extractedInfo),
                    ''_extraction_processed'' \<mapsto> JBool True,
                    ''_extraction_date'' \<mapsto> JDate (now c)))\<rparr>
      in (Returned (), execution',
          w\<lparr>executions := (executions w)(bolna_execution_id execution \<mapsto> execution')\<rparr>))"

definition legacy_deliver_and_save ::
    "collaborators \<Rightarrow> execution \<Rightarrow> (string \<Rightarrow> string option) \<Rightarrow> world
       \<Rightarrow> unit outcome \<times> execution \<times> world" where
  "legacy_deliver_and_save c execution extractedInfo w =
     (case legacy_sheetData c execution extractedInfo of
        Inl e \<Rightarrow> (Thrown e, execution, w)
      | Inr sheetData \<Rightarrow>
          (case legacy_deliver c sheetData w of
             Inl e \<Rightarrow> (Thrown e, execution, w)
           | Inr w' \<Rightarrow> legacy_save c execution extractedInfo w'))"

definition legacy_body ::
    "extraction_service \<Rightarrow> collaborators \<Rightarrow> execution \<Rightarrow> world
       \<Rightarrow> unit outcome \<times> execution \<times> world" where
  "legacy_body svc c execution w =
     (if extraction_processed execution then (Returned (), execution, w)
      else
        let extracted = extractDoctorInfo svc (transcript execution);
            extractedInfo = fst extracted;
            w1 = w\<lparr>ai_requests := ai_requests w @ snd extracted\<rparr>
        in if hasValidData extractedInfo
           then legacy_deliver_and_save c execution extractedInfo w1
           else (Returned (), execution, w1))"

definition processTranscriptForExtraction_legacy ::
    "extraction_service \<Rightarrow> collaborators \<Rightarrow> execution \<Rightarrow> world
       \<Rightarrow> unit outcome \<times> execution \<times> world" where
  "processTranscriptForExtraction_legacy svc c execution w =
     catch_and_log (legacy_body svc c execution w)"

text \<open>The repository holds both versions of the service; the callers are the same.\<close>

datatype version = Legacy | Custom

fun processTranscriptForExtraction ::
    "version \<Rightarrow> extraction_service \<Rightarrow> collaborators \<Rightarrow> execution \<Rightarrow> world
       \<Rightarrow> unit outcome \<times> execution \<times> world" where
  "processTranscriptForExtraction Legacy = processTranscriptForExtraction_legacy"
| "processTranscriptForExtraction Custom = processTranscriptForExtraction_custom"

section \<open>Record reconciler (upsertExecution)\<close>

text \<open>
  \<open>executionData.total_cost ? executionData.total_cost / 100 : 0\<close>. The quotient is the
  one the platform computes, in floating-point arithmetic and after the numeric coercion of
  a value that is not a number: \<open>divide_by_100\<close>.
\<close>

definition costInDollars :: "collaborators \<Rightarrow> jsval \<Rightarrow> jsval" where
  "costInDollars c executionData =
     (let total = read_prop executionData ''total_cost'' in
      if truthy total then divide_by_100 c total else JNum 0)"

definition conversationTime :: "jsval \<Rightarrow> jsval" where
  "conversationTime executionData =
     js_or (js_or (js_or (js_or (js_or (js_or
       (read_prop executionData ''conversation_duration'')
       (read_prop executionData ''conversation_time''))
       (read_prop executionData ''duration''))
       (read_prop executionData ''call_duration''))
       (read_prop executionData ''call_duration_seconds''))
       (read_prop executionData ''billable_duration''))
       (JNum 0)"

text \<open>
  The compartment to persist: the remote one (or \<open>{}\<close>), with the stored one spread over
  it when the stored record has been processed.
\<close>

definition finalExtractedData :: "jsval \<Rightarrow> execution option \<Rightarrow> jsval" where
  "finalExtractedData executionData existingExecution =
     (let remote = js_or (read_prop executionData ''extracted_data'') (JObj Map.empty) in
      case existingExecution of
        None \<Rightarrow> remote
      | Some existing \<Rightarrow>
          if extraction_processed existing
          then JObj (own_props remote ++ own_props (extracted_data existing))
          else remote)"

definition executionDoc ::
    "collaborators \<Rightarrow> jsval \<Rightarrow> jsval \<Rightarrow> jsval \<Rightarrow> jsval \<Rightarrow> string \<Rightarrow> execution" where
  "executionDoc c agentId executionData executionId extracted doc_id =
     (let telephony = read_prop executionData ''telephony_data'' in
      \<lparr>oid = doc_id,
       bolna_execution_id = executionId,
       agent_id = agentId,
       conversation_time = conversationTime executionData,
       total_cost = costInDollars c executionData,
       status = js_or (read_prop executionData ''status'') (JStr ''pending''),
       telephony_provider = js_or (opt_prop telephony ''provider'') (read_prop executionData ''provider''),
       from_number = js_or (opt_prop telephony ''from_number'') (read_prop executionData ''from_number''),
       to_number = js_or (opt_prop telephony ''to_number'') (read_prop executionData ''to_number''),
       call_sid = js_or (opt_prop telephony ''call_sid'') (read_prop executionData ''call_sid''),
       extracted_data = extracted,
       transcript = js_or (read_prop executionData ''transcript'') (JStr []),
       metadata = JObj ((own_props executionData)
                         (''cost_breakdown'' \<mapsto> read_prop executionData ''cost_breakdown'',
                          ''telephony_data'' \<mapsto> telephony,
                          ''recording_url'' \<mapsto> opt_prop telephony ''recording_url'')),
       started_at = (if truthy (read_prop executionData ''created_at'')
                     then JDate (read_prop executionData ''created_at'') else JNull),
       ended_at = (if truthy (read_prop executionData ''updated_at'')
                   then JDate (read_prop executionData ''updated_at'') else JNull)\<rparr>)"

text \<open>
  \<open>upsertExecution\<close>: every exception of the body is rethrown. \<open>findOneAndUpdate\<close> with
  \<open>upsert\<close> and \<open>new\<close> overwrites the listed fields of the stored document, or inserts a
  new document, and returns the result. The test
  \<open>execution.transcript && execution.transcript.trim().length > 0\<close> throws a \<open>TypeError\<close>
  on a truthy transcript that is not a string.
\<close>

definition upsertExecution ::
    "version \<Rightarrow> extraction_service \<Rightarrow> collaborators \<Rightarrow> jsval \<Rightarrow> jsval \<Rightarrow> world
       \<Rightarrow> execution option outcome \<times> world" where
  "upsertExecution v svc c agentId executionData w =
     (case get_prop executionData ''id'' of
        Inl e \<Rightarrow> (Thrown e, w)
      | Inr id_value \<Rightarrow>
          let executionId = js_or id_value (read_prop executionData ''execution_id'') in
          if \<not> truthy executionId then (Returned None, w)
          else
            let existingExecution = executions w executionId;
                execution = executionDoc c agentId executionData executionId
                              (finalExtractedData executionData existingExecution)
                              (case existingExecution of None \<Rightarrow> new_oid c | Some existing \<Rightarrow> oid existing);
                w1 = w\<lparr>executions := (executions w)(executionId \<mapsto> execution)\<rparr>
            in
            case transcript execution of
              JStr t \<Rightarrow>
                if t \<noteq> [] \<and> trim t \<noteq> [] then
                  (case processTranscriptForExtraction v svc c execution w1 of
                     (Returned u, execution', w2) \<Rightarrow> (Returned (Some execution'), w2)
                   | (Thrown e, execution', w2) \<Rightarrow> (Thrown e, w2))
                else (Returned (Some execution), w1)
            | other \<Rightarrow>
                if truthy other then (Thrown TypeError, w1) else (Returned (Some execution), w1))"

section \<open>Sync orchestrator (syncExecutionsForAgent)\<close>

text \<open>
  The orchestrator is observed through the sequence of its calls: a page fetch with its
  page number, and the reconciliation of one record.
\<close>

datatype event = Fetched nat | Reconciled jsval

text \<open>
  The inner loop \<open>for (const executionData of executions)\<close>: a record whose upsert throws
  is logged and not counted.
\<close>

fun upsert_each ::
    "version \<Rightarrow> extraction_service \<Rightarrow> collaborators \<Rightarrow> jsval \<Rightarrow> jsval list
       \<Rightarrow> nat \<Rightarrow> world \<Rightarrow> event list \<Rightarrow> nat \<times> world \<times> event list" where
  "upsert_each v svc c agentId [] totalSynced w tr = (totalSynced, w, tr)"
| "upsert_each v svc c agentId (executionData # rest) totalSynced w tr =
     (case upsertExecution v svc c agentId executionData w of
        (Returned r, w') \<Rightarrow>
          upsert_each v svc c agentId rest (totalSynced + 1) w' (tr @ [Reconciled executionData])
      | (Thrown e, w') \<Rightarrow>
          upsert_each v svc c agentId rest totalSynced w' (tr @ [Reconciled executionData]))"

text \<open>What \<open>for ... of\<close> iterates: an array or a string; anything else throws.\<close>

fun iterate :: "jsval \<Rightarrow> error + jsval list" where
  "iterate (JArr xs) = Inr xs"
| "iterate (JStr s) = Inr (map (\<lambda>ch. JStr [ch]) s)"
| "iterate v = Inl TypeError"

text \<open>
  The loop \<open>while (hasMore)\<close>, entered with \<open>hasMore = true\<close>. It need not end: the result
  \<open>None\<close> stands for a run that never returns.
\<close>

partial_function (option) sync_pages ::
    "version \<Rightarrow> extraction_service \<Rightarrow> collaborators \<Rightarrow> jsval \<Rightarrow> agent
       \<Rightarrow> nat \<Rightarrow> nat \<Rightarrow> world \<Rightarrow> event list \<Rightarrow> (nat outcome \<times> world \<times> event list) option" where
  "sync_pages v svc c bolnaAgentId ag pageNumber totalSynced w tr =
     (case fetchExecutionsForAgent c bolnaAgentId pageNumber 50 of
        Inl e \<Rightarrow> Some (Thrown e, w, tr @ [Fetched pageNumber])
      | Inr response \<Rightarrow>
          (case get_prop response ''data'' of
             Inl e \<Rightarrow> Some (Thrown e, w, tr @ [Fetched pageNumber])
           | Inr page_data \<Rightarrow>
               (case iterate (js_or page_data (JArr [])) of
                  Inl e \<Rightarrow> Some (Thrown e, w, tr @ [Fetched pageNumber])
                | Inr page_executions \<Rightarrow>
                    (case upsert_each v svc c (agent_oid ag) page_executions totalSynced w
                            (tr @ [Fetched pageNumber]) of
                       (totalSynced', w', tr') \<Rightarrow>
                         if truthy (js_or (read_prop response ''has_more'') (JBool False))
                         then sync_pages v svc c bolnaAgentId ag (pageNumber + 1) totalSynced' w' tr'
                         else Some (Returned totalSynced', w', tr')))))"

text \<open>
  \<open>syncExecutionsForAgent\<close>: an unknown agent and every exception that leaves the loop
  make it return \<open>0\<close>.
\<close>

definition syncExecutionsForAgent ::
    "version \<Rightarrow> extraction_service \<Rightarrow> collaborators \<Rightarrow> jsval \<Rightarrow> world
       \<Rightarrow> (nat \<times> world \<times> event list) option" where
  "syncExecutionsForAgent v svc c bolnaAgentId w =
     (case find_agent_by_bolna_id c bolnaAgentId of
        Inl e \<Rightarrow> Some (0, w, [])
      | Inr None \<Rightarrow> Some (0, w, [])
      | Inr (Some ag) \<Rightarrow>
          (case sync_pages v svc c bolnaAgentId ag 1 0 w [] of
             None \<Rightarrow> None
           | Some (Returned totalSynced, w', tr) \<Rightarrow> Some (totalSynced, w', tr)
           | Some (Thrown e, w', tr) \<Rightarrow> Some (0, w', tr)))"

section \<open>Token encryption (EncryptionService)\<close>




subsection \<open>The conversion \<open>'utf8'\<close> from a string to bytes\<close>







subsection \<open>The conversion \<open>'utf8'\<close> from bytes to a string\<close>





subsection \<open>Hexadecimal text\<close>






subsection \<open>\<open>encrypt\<close> and \<open>decrypt\<close>\<close>




section \<open>Notions used in the statements\<close>

text \<open>The remote execution id of a record, \<open>executionData.id || executionData.execution_id\<close>.\<close>

definition executionId_of :: "jsval \<Rightarrow> jsval" where
  "executionId_of executionData =
     js_or (read_prop executionData ''id'') (read_prop executionData ''execution_id'')"

text \<open>The ordered candidate names of the duration, and two ways to select among values.\<close>

definition duration_candidates :: "string list" where
  "duration_candidates = [''conversation_duration'', ''conversation_time'', ''duration'',
     ''call_duration'', ''call_duration_seconds'', ''billable_duration'']"

definition first_truthy :: "jsval list \<Rightarrow> jsval \<Rightarrow> jsval" where
  "first_truthy vs d = (case filter truthy vs of [] \<Rightarrow> d | x # rest \<Rightarrow> x)"

text \<open>
  The selection as the specification words it: the first value that is present and not
  \<open>null\<close>.
\<close>

definition first_present_non_null :: "jsval list \<Rightarrow> jsval \<Rightarrow> jsval" where
  "first_present_non_null vs d =
     (case filter (\<lambda>v. v \<noteq> JUndefined \<and> v \<noteq> JNull) vs of [] \<Rightarrow> d | x # rest \<Rightarrow> x)"

text \<open>A value of the extractor's result: a non-empty trimmed string, or the sentinel.\<close>

definition clean_value :: "jsval \<Rightarrow> bool" where
  "clean_value v = (\<exists>s. v = JStr s \<and> ((s \<noteq> [] \<and> trim s = s) \<or> s = NotFound))"

text \<open>
  The document \<open>findOneAndUpdate\<close> writes for a record, the test on its transcript, and
  the document the collection holds when \<open>upsertExecution\<close> is over.
\<close>

definition written_doc :: "collaborators \<Rightarrow> jsval \<Rightarrow> jsval \<Rightarrow> world \<Rightarrow> execution" where
  "written_doc c agentId executionData w =
     executionDoc c agentId executionData (executionId_of executionData)
       (finalExtractedData executionData (executions w (executionId_of executionData)))
       (case executions w (executionId_of executionData) of
          None \<Rightarrow> new_oid c
        | Some existing \<Rightarrow> oid existing)"

definition nonblank :: "jsval \<Rightarrow> bool" where
  "nonblank t = (case t of JStr s \<Rightarrow> s \<noteq> [] \<and> trim s \<noteq> [] | _ \<Rightarrow> False)"

definition stored_doc ::
    "version \<Rightarrow> extraction_service \<Rightarrow> collaborators \<Rightarrow> jsval \<Rightarrow> jsval \<Rightarrow> world \<Rightarrow> execution" where
  "stored_doc v svc c agentId executionData w =
     (let written = written_doc c agentId executionData w in
      if nonblank (transcript written)
      then fst (snd (processTranscriptForExtraction v svc c written
                      (w\<lparr>executions := (executions w)(executionId_of executionData \<mapsto> written)\<rparr>)))
      else written)"

text \<open>
  What one run of the step can do to a document and the collection: nothing, or (on a
  document not yet processed) replace the compartment by an object that keeps its keys and
  has the flag, and save the document under its remote id.
\<close>

definition step_shape :: "execution \<Rightarrow> world \<Rightarrow> unit outcome \<times> execution \<times> world \<Rightarrow> bool" where
  "step_shape ex w r =
     (case r of (out, ex', w') \<Rightarrow>
        (ex' = ex \<and> executions w' = executions w) \<or>
        (\<not> extraction_processed ex \<and>
         out = Returned () \<and>
         ex' = ex\<lparr>extracted_data := extracted_data ex'\<rparr> \<and>
         (case extracted_data ex' of
            JObj m \<Rightarrow> m ''_extraction_processed'' = Some (JBool True) \<and>
                      dom (own_props (extracted_data ex)) \<subseteq> dom m
          | _ \<Rightarrow> False) \<and>
         executions w' = (executions w)(bolna_execution_id ex \<mapsto> ex')))"

text \<open>The events of a trace that are page fetches.\<close>

fun is_fetch :: "event \<Rightarrow> bool" where
  "is_fetch (Fetched n) = True"
| "is_fetch (Reconciled r) = False"

text \<open>
  The reconciliation of a list of records one after the other, each from the state the
  previous one left: the outcomes of the calls of \<open>upsertExecution\<close>, and the final state.
\<close>

fun reconciled_in_order ::
    "version \<Rightarrow> extraction_service \<Rightarrow> collaborators \<Rightarrow> jsval \<Rightarrow> jsval list \<Rightarrow> world
       \<Rightarrow> execution option outcome list \<times> world" where
  "reconciled_in_order v svc c agentId [] w = ([], w)"
| "reconciled_in_order v svc c agentId (executionData # rest) w =
     (case upsertExecution v svc c agentId executionData w of
        (out, w') \<Rightarrow>
          (case reconciled_in_order v svc c agentId rest w' of
             (outs, w'') \<Rightarrow> (out # outs, w'')))"

fun has_returned :: "'a outcome \<Rightarrow> bool" where
  "has_returned (Returned r) = True"
| "has_returned (Thrown e) = False"





section \<open>Sample data\<close>

definition name_field :: custom_field where
  "name_field = \<lparr>field_name = ''Name'', description = ''Name of the caller''\<rparr>"

definition proto_field :: custom_field where
  "proto_field = \<lparr>field_name = ''__proto__'', description = ''Anything''\<rparr>"

definition city_field :: custom_field where
  "city_field = \<lparr>field_name = ''City'', description = ''City of the caller''\<rparr>"

text \<open>A service without an API key, and one whose backend answers.\<close>

definition offline_service :: extraction_service where
  "offline_service =
     \<lparr>useAI = False,
      openai_custom = (\<lambda>t fs. Inl (Failure ''no API key'')),
      openai_doctor = (\<lambda>t. Inl (Failure ''no API key'')),
      regex_doctor = (\<lambda>k t. [])\<rparr>"

definition answering_service :: extraction_service where
  "answering_service =
     \<lparr>useAI = True,
      openai_custom = (\<lambda>t fs. Inr (JObj [''Name'' \<mapsto> JStr '' Asha ''])),
      openai_doctor = (\<lambda>t. Inr (JObj [''doctor_name'' \<mapsto> JStr ''Dr Rao''])),
      regex_doctor = (\<lambda>k t. [])\<rparr>"


definition sample_agent :: agent where
  "sample_agent = \<lparr>agent_oid = JStr ''a1'', client_id = JStr ''c1'', agent_name = JStr ''Front desk''\<rparr>"

definition sample_client :: client where
  "sample_client = \<lparr>google_authorized = True, google_sheet_id = JStr ''sheet-1''\<rparr>"

definition page :: "jsval list \<Rightarrow> bool \<Rightarrow> jsval" where
  "page records has_more = JObj [''data'' \<mapsto> JArr records, ''has_more'' \<mapsto> JBool has_more]"

definition remote_record :: "string \<Rightarrow> jsval" where
  "remote_record i = JObj [''id'' \<mapsto> JStr i]"

text \<open>
  Collaborators whose sheet sinks always fail: \<open>appendRow\<close> throws and the webhook reports
  failure. The remote platform has three pages for the agent.
\<close>

definition failing_sinks :: collaborators where
  "failing_sinks =
     \<lparr>find_agent = (\<lambda>i. Inr (Some sample_agent)),
      find_fields = (\<lambda>i. Inr [name_field]),
      find_client = (\<lambda>i. Inr (Some sample_client)),
      appendRow = (\<lambda>cl values. Inl (Failure ''append failed'')),
      appendToCSV = (\<lambda>row filename. Inr ()),
      sendToGoogleAppsScript = (\<lambda>row. False),
      save_empty = False,
      now = JNum 1700000000000,
      toISOString = (\<lambda>d. Inr ''2023-11-14T22:13:20.000Z''),
      toTimeString = (\<lambda>d. Inr ''22:13:20 GMT+0000''),
      new_oid = ''65530001'',
      divide_by_100 = (\<lambda>v. JNum 0),
      find_agent_by_bolna_id = (\<lambda>i. Inr (Some sample_agent)),
      fetchExecutionsForAgent = (\<lambda>i pageNumber pageSize.
         if pageNumber = 1 then Inr (page [remote_record ''E1''] True)
         else if pageNumber = 2 then Inr (page [remote_record ''E2'', remote_record ''E3''] True)
         else if pageNumber = 3 then Inr (page [remote_record ''E4''] False)
         else Inl (Failure ''no such page''))\<rparr>"

definition empty_world :: world where
  "empty_world =
     \<lparr>executions = Map.empty, ai_requests = [], sheet_rows = [], csv_rows = [], webhook_posts = []\<rparr>"

definition pending_execution :: execution where
  "pending_execution =
     \<lparr>oid = ''65530001'',
      bolna_execution_id = JStr ''E1'',
      agent_id = JStr ''a1'',
      conversation_time = JNum 42,
      total_cost = JNum (5 / 2),
      status = JStr ''completed'',
      telephony_provider = JUndefined,
      from_number = JUndefined,
      to_number = JUndefined,
      call_sid = JUndefined,
      extracted_data = JObj Map.empty,
      transcript = JStr ''My name is Asha'',
      metadata = JObj Map.empty,
      started_at = JNull,
      ended_at = JNull\<rparr>"

definition processed_execution :: execution where
  "processed_execution =
     pending_execution\<lparr>extracted_data :=
        JObj [''a'' \<mapsto> JNum 1, ''_extraction_processed'' \<mapsto> JBool True]\<rparr>"






text \<open>Two results of the step that agree on the document and on the collection.\<close>

definition same_persisted ::
    "unit outcome \<times> execution \<times> world \<Rightarrow> unit outcome \<times> execution \<times> world \<Rightarrow> bool" where
  "same_persisted r r' =
     (fst (snd r) = fst (snd r') \<and> executions (snd (snd r)) = executions (snd (snd r')))"

text \<open>Records, states and values of the examples.\<close>

definition refetched_record :: jsval where
  "refetched_record = JObj [''id'' \<mapsto> JStr ''E1'', ''extracted_data'' \<mapsto> JObj [''b'' \<mapsto> JNum 2]]"

definition world_with_processed :: world where
  "world_with_processed = empty_world\<lparr>executions := [JStr ''E1'' \<mapsto> processed_execution]\<rparr>"

definition scenario_record :: jsval where
  "scenario_record = JObj [''id'' \<mapsto> JStr ''E1'', ''total_cost'' \<mapsto> JNum 250,
                           ''duration'' \<mapsto> JNull, ''call_duration'' \<mapsto> JNum 42]"

definition zero_duration_record :: jsval where
  "zero_duration_record = JObj [''id'' \<mapsto> JStr ''E1'', ''conversation_duration'' \<mapsto> JNum 0,
                                ''duration'' \<mapsto> JNum 42]"


definition sample_metadata :: obj where
  "sample_metadata = [''Call_Date'' \<mapsto> JStr [], ''Call_Time'' \<mapsto> JStr [],
                      ''Execution_ID'' \<mapsto> JStr ''E1'', ''Agent_Name'' \<mapsto> JStr ''Front desk'']"

section \<open>Properties of the field extractor\<close>

lemma dropWhile_fix: "xs = [] \<or> \<not> P (hd xs) \<Longrightarrow> dropWhile P xs = xs"
  by (cases xs) auto

lemma trim_trim: "trim (trim s) = trim s"
proof -
  define a where "a = dropWhile is_space s"
  define b where "b = dropWhile is_space (rev a)"
  have b_hd: "b = [] \<or> \<not> is_space (hd b)"
    unfolding b_def by (metis hd_dropWhile)
  have a_hd: "a = [] \<or> \<not> is_space (hd a)"
    unfolding a_def by (metis hd_dropWhile)
  have "set b \<subseteq> set a" unfolding b_def using set_dropWhileD by fastforce
  have rb: "rev b = [] \<or> \<not> is_space (hd (rev b))"
  proof (cases "b = []")
    case True then show ?thesis by simp
  next
    case False
    then obtain ys where "rev a = ys @ b" unfolding b_def
      by (metis takeWhile_dropWhile_id)
    then have "a = rev b @ rev ys" by (metis rev_append rev_rev_ident)
    with False a_hd show ?thesis by (cases "rev b") auto
  qed
  have 1: "dropWhile is_space (rev b) = rev b" using rb by (rule dropWhile_fix)
  have 2: "dropWhile is_space b = b" using b_hd by (rule dropWhile_fix)
  have "trim s = rev b" by (simp add: trim_def a_def b_def)
  moreover have "trim (rev b) = rev b" by (simp add: trim_def 1 2)
  ultimately show ?thesis by simp
qed

lemma trim_NotFound: "trim NotFound = NotFound"
  by (simp add: trim_def NotFound_def is_space_def)

lemma NotFound_nonempty: "NotFound \<noteq> []"
  by (simp add: NotFound_def)

lemma sanitize_ok: "sanitizeCustomValue v \<noteq> [] \<and> trim (sanitizeCustomValue v) = sanitizeCustomValue v"
  by (cases v) (auto simp: sanitizeCustomValue_def trim_trim trim_NotFound NotFound_nonempty)

lemma dom_assign: "dom (assign_string r k s) = (if k = ''__proto__'' then dom r else insert k (dom r))"
  by (simp add: assign_string_def)

lemma dom_getEmpty_fold:
  "dom (fold (\<lambda>f result. assign_string result (field_name f) NotFound) fs m)
     = dom m \<union> (field_name ` set fs - {''__proto__''})"
  by (induction fs arbitrary: m) (auto simp: dom_assign)

lemma dom_getEmpty: "dom (getEmptyCustomFieldsData fs) = field_name ` set fs - {''__proto__''}"
  by (simp add: getEmptyCustomFieldsData_def dom_getEmpty_fold)

lemma vals_getEmpty_fold:
  "\<forall>v \<in> ran m. clean_value v \<Longrightarrow>
   \<forall>v \<in> ran (fold (\<lambda>f result. assign_string result (field_name f) NotFound) fs m). clean_value v"
proof (induction fs arbitrary: m)
  case Nil then show ?case by simp
next
  case (Cons f fs)
  have "\<forall>v \<in> ran (assign_string m (field_name f) NotFound). clean_value v"
    using Cons.prems by (auto simp: assign_string_def ran_def clean_value_def split: if_splits)
  from Cons.IH[OF this] show ?case by simp
qed

lemma sanitize_fields_dom:
  "sanitize_fields d fs m = Inr r \<Longrightarrow> dom r = dom m \<union> (field_name ` set fs - {''__proto__''})"
  by (induction fs arbitrary: m) (auto simp: dom_assign split: sum.splits if_splits)

lemma sanitize_fields_vals:
  "sanitize_fields d fs m = Inr r \<Longrightarrow> \<forall>v \<in> ran m. clean_value v \<Longrightarrow> \<forall>v \<in> ran r. clean_value v"
proof (induction fs arbitrary: m)
  case Nil then show ?case by simp
next
  case (Cons f fs)
  from Cons.prems(1) obtain x where x: "get_prop d (field_name f) = Inr x"
    and rest: "sanitize_fields d fs (assign_string m (field_name f) (sanitizeCustomValue x)) = Inr r"
    by (auto split: sum.splits)
  have "\<forall>v \<in> ran (assign_string m (field_name f) (sanitizeCustomValue x)). clean_value v"
    using Cons.prems(2) sanitize_ok[of x]
    by (auto simp: assign_string_def ran_def clean_value_def split: if_splits)
  from Cons.IH[OF rest this] show ?case .
qed

lemma extract_dom: "dom (fst (extractWithCustomFields svc t fs)) = field_name ` set fs - {''__proto__''}"
  by (cases t) (auto simp: extractWithCustomFields_def dom_getEmpty extractWithCustomFieldsAI_def
     dest!: sanitize_fields_dom split: sum.splits)

lemma extract_vals: "\<forall>v \<in> ran (fst (extractWithCustomFields svc t fs)). clean_value v"
proof -
  have e: "\<forall>v \<in> ran (getEmptyCustomFieldsData fs). clean_value v"
    unfolding getEmptyCustomFieldsData_def by (rule vals_getEmpty_fold) simp
  have a: "extractWithCustomFieldsAI svc s fs = Inr r \<Longrightarrow> \<forall>v \<in> ran r. clean_value v" for s r
    unfolding extractWithCustomFieldsAI_def
    by (auto split: sum.splits dest!: sanitize_fields_vals)
  show ?thesis using e a
    by (cases t) (auto simp: extractWithCustomFields_def split: sum.splits)
qed

text \<open>
  Claim C5. The field names of a client are pairwise distinct. When one of the descriptors
  is named \<open>__proto__\<close> (a name the field validation accepts), then for every transcript
  and every service the mapping returned by \<open>extractWithCustomFields\<close> has a key for each
  of the other descriptors and none for that one: \<open>N - 1\<close> keys for \<open>N\<close> descriptors, on
  every path of the extractor.
\<close>

theorem proto_named_descriptor_gets_no_key:
  assumes "distinct (map field_name customFields)"
      and "''__proto__'' \<in> field_name ` set customFields"
  shows "dom (fst (extractWithCustomFields svc t customFields))
           = field_name ` set customFields - {''__proto__''}
       \<and> card (dom (fst (extractWithCustomFields svc t customFields))) = length customFields - 1"
proof -
  have keys: "dom (fst (extractWithCustomFields svc t customFields))
                = field_name ` set customFields - {''__proto__''}"
    by (rule extract_dom)
  have "card (field_name ` set customFields) = length customFields"
    using assms(1) by (metis distinct_card length_map set_map)
  then have "card (field_name ` set customFields - {''__proto__''}) = length customFields - 1"
    using assms(2) by simp
  with keys show ?thesis by simp
qed

theorem proto_named_descriptor_gets_no_key_witness:
  "distinct (map field_name [proto_field, name_field])
   \<and> ''__proto__'' \<in> field_name ` set [proto_field, name_field]
   \<and> length [proto_field, name_field] = 2
   \<and> dom (fst (extractWithCustomFields answering_service (JStr ''My name is Asha'')
                  [proto_field, name_field])) = {''Name''}
   \<and> card (dom (fst (extractWithCustomFields answering_service (JStr ''My name is Asha'')
                        [proto_field, name_field]))) = 1"
proof -
  have h1: "distinct (map field_name [proto_field, name_field])"
    by (simp add: name_field_def proto_field_def)
  have h2: "''__proto__'' \<in> field_name ` set [proto_field, name_field]"
    by (simp add: proto_field_def)
  have s: "field_name ` set [proto_field, name_field] - {''__proto__''} = {''Name''}"
    by (auto simp: name_field_def proto_field_def)
  from proto_named_descriptor_gets_no_key[OF h1 h2, of answering_service "JStr ''My name is Asha''"]
  have "dom (fst (extractWithCustomFields answering_service (JStr ''My name is Asha'')
                  [proto_field, name_field])) = {''Name''}"
       "card (dom (fst (extractWithCustomFields answering_service (JStr ''My name is Asha'')
                        [proto_field, name_field]))) = 1"
    unfolding s by simp_all
  with h1 h2 show ?thesis by simp
qed

text \<open>
  Claim C9. For the empty transcript the extractor sends no request and returns the mapping
  built by \<open>getEmptyCustomFieldsData\<close>. With three active fields of which one is named
  \<open>__proto__\<close> (a name the field validation accepts) that mapping has two keys only: the
  field \<open>__proto__\<close> gets no sentinel.
\<close>

theorem proto_field_gets_no_sentinel:
  "fst (extractWithCustomFields svc (JStr []) [proto_field, name_field, city_field]) ''__proto__'' = None
   \<and> extractWithCustomFields svc (JStr []) [proto_field, name_field, city_field]
       = ([''Name'' \<mapsto> JStr NotFound, ''City'' \<mapsto> JStr NotFound], [])"
  by (simp add: extractWithCustomFields_def getEmptyCustomFieldsData_def assign_string_def
        proto_field_def name_field_def city_field_def)

text \<open>
  For descriptors with pairwise distinct field names, none of which is \<open>__proto__\<close>, and
  for every transcript (any value, empty or not) and every service (with or without a
  backend, whatever the backend returns or throws), the mapping returned by
  \<open>extractWithCustomFields\<close> has exactly one key for each descriptor, and each of its values
  is a non-empty trimmed string or the string \<open>"Not Found"\<close>.
\<close>

theorem extractor_keys_and_values:
  assumes "distinct (map field_name customFields)"
      and "''__proto__'' \<notin> field_name ` set customFields"
  shows "card (dom (fst (extractWithCustomFields svc t customFields))) = length customFields
       \<and> dom (fst (extractWithCustomFields svc t customFields)) = field_name ` set customFields
       \<and> (\<forall>v \<in> ran (fst (extractWithCustomFields svc t customFields)).
             \<exists>s. v = JStr s \<and> ((s \<noteq> [] \<and> trim s = s) \<or> s = NotFound))"
proof -
  have keys: "dom (fst (extractWithCustomFields svc t customFields))
                = field_name ` set customFields"
    using assms(2) by (simp add: extract_dom)
  have "card (field_name ` set customFields) = length customFields"
    using assms(1) by (metis distinct_card length_map set_map)
  with keys extract_vals[of svc t customFields] show ?thesis
    by (simp add: clean_value_def)
qed

theorem extractor_keys_and_values_witness:
  "distinct (map field_name [name_field, city_field])
   \<and> ''__proto__'' \<notin> field_name ` set [name_field, city_field]
   \<and> card (dom (fst (extractWithCustomFields answering_service (JStr ''My name is Asha'')
                        [name_field, city_field]))) = 2
   \<and> dom (fst (extractWithCustomFields answering_service (JStr ''My name is Asha'')
                  [name_field, city_field])) = {''Name'', ''City''}"
proof -
  have h1: "distinct (map field_name [name_field, city_field])"
    by (simp add: name_field_def city_field_def)
  have h2: "''__proto__'' \<notin> field_name ` set [name_field, city_field]"
    by (simp add: name_field_def city_field_def)
  from extractor_keys_and_values[OF h1 h2, of answering_service "JStr ''My name is Asha''"]
  have "card (dom (fst (extractWithCustomFields answering_service (JStr ''My name is Asha'')
                        [name_field, city_field]))) = length [name_field, city_field]"
       "dom (fst (extractWithCustomFields answering_service (JStr ''My name is Asha'')
                  [name_field, city_field])) = field_name ` set [name_field, city_field]"
    by blast+
  then show ?thesis using h1 h2 by (simp add: name_field_def city_field_def)
qed

text \<open>
  For the empty transcript and three descriptors none of which is named \<open>__proto__\<close>, the
  extractor returns the sentinel for each field name and sends no request, whatever the
  service is.
\<close>

theorem empty_transcript_gives_sentinels:
  assumes "field_name f1 \<noteq> ''__proto__''" "field_name f2 \<noteq> ''__proto__''"
          "field_name f3 \<noteq> ''__proto__''"
  shows "extractWithCustomFields svc (JStr []) [f1, f2, f3]
       = ([field_name f1 \<mapsto> JStr NotFound, field_name f2 \<mapsto> JStr NotFound,
           field_name f3 \<mapsto> JStr NotFound], [])"
  using assms
  by (simp add: extractWithCustomFields_def getEmptyCustomFieldsData_def assign_string_def)

theorem empty_transcript_gives_sentinels_witness:
  "field_name name_field \<noteq> ''__proto__'' \<and> field_name city_field \<noteq> ''__proto__''
   \<and> extractWithCustomFields answering_service (JStr []) [name_field, city_field, name_field]
       = ([''Name'' \<mapsto> JStr NotFound, ''City'' \<mapsto> JStr NotFound, ''Name'' \<mapsto> JStr NotFound], [])"
proof -
  have h1: "field_name name_field \<noteq> ''__proto__''" by (simp add: name_field_def)
  have h2: "field_name city_field \<noteq> ''__proto__''" by (simp add: city_field_def)
  from empty_transcript_gives_sentinels[OF h1 h2 h1, of answering_service]
  show ?thesis using h1 h2 by (simp add: name_field_def city_field_def)
qed


lemma trim_padded: "trim '' Asha '' = ''Asha''"
  by (simp add: trim_def is_space_def)

lemma answering_custom:
  "extractWithCustomFields answering_service (JStr ''My name is Asha'') [name_field]
     = ([''Name'' \<mapsto> JStr ''Asha''], [(''My name is Asha'', [name_field])])"
  by (simp add: extractWithCustomFields_def extractWithCustomFieldsAI_def answering_service_def
        name_field_def read_prop_def sanitizeCustomValue_def assign_string_def trim_padded)

lemma offline_custom:
  "extractWithCustomFields offline_service (JStr ''My name is Asha'') [name_field]
     = ([''Name'' \<mapsto> JStr NotFound], [])"
  by (simp add: extractWithCustomFields_def offline_service_def getEmptyCustomFieldsData_def
        name_field_def assign_string_def)

lemma found_asha: "hasFoundData [''Name'' \<mapsto> JStr ''Asha'']"
  by (simp add: hasFoundData_def NotFound_def)

lemma not_found_only: "\<not> hasFoundData [''Name'' \<mapsto> JStr NotFound]"
  by (simp add: hasFoundData_def)

lemma doctor_rao:
  "fst (extractDoctorInfo answering_service (JStr ''My name is Asha'')) ''doctor_name'' = Some ''Dr Rao''"
  by (simp add: extractDoctorInfo_def extractWithAI_def answering_service_def doctor_keys_def
        sanitizeValue_def read_prop_def trim_def is_space_def)

lemma has_valid_intro: "m k = Some v \<Longrightarrow> v \<noteq> [] \<Longrightarrow> trim v \<noteq> [] \<Longrightarrow> hasValidData m"
  by (auto simp: hasValidData_def ran_def)

lemma valid_doctor: "hasValidData (fst (extractDoctorInfo answering_service (JStr ''My name is Asha'')))"
  by (rule has_valid_intro[where k = "''doctor_name''" and v = "''Dr Rao''"])
     (simp_all add: doctor_rao trim_def is_space_def)

section \<open>Properties of the extraction-and-delivery step\<close>

lemma shape_same: "executions w' = executions w \<Longrightarrow> step_shape ex w (out, ex, w')"
  by (simp add: step_shape_def)

lemma custom_deliver_executions:
  "executions (custom_deliver c cl fs d meta w) = executions w"
  by (simp add: custom_deliver_def Let_def split: option.splits sum.splits)

lemma custom_save_shape:
  "\<not> extraction_processed ex \<Longrightarrow> executions w1 = executions w
     \<Longrightarrow> step_shape ex w (custom_save c ex d meta w1)"
  by (simp add: custom_save_def step_shape_def Let_def subset_iff)

lemma custom_deliver_and_save_shape:
  "\<not> extraction_processed ex \<Longrightarrow> executions w1 = executions w
     \<Longrightarrow> step_shape ex w (custom_deliver_and_save c ex ag fs d w1)"
  by (simp add: custom_deliver_and_save_def shape_same custom_save_shape
        custom_deliver_executions split: sum.splits)

lemma custom_extract_shape:
  "\<not> extraction_processed ex \<Longrightarrow> step_shape ex w (custom_extract svc c ex ag fs w)"
  by (simp add: custom_extract_def Let_def shape_same custom_deliver_and_save_shape)

lemma custom_body_shape: "step_shape ex w (custom_body svc c ex w)"
  by (simp add: custom_body_def shape_same custom_extract_shape split: sum.splits option.splits)

lemma legacy_deliver_executions:
  "legacy_deliver c sd w = Inr w' \<Longrightarrow> executions w' = executions w"
  by (auto simp: legacy_deliver_def Let_def split: sum.splits)

lemma legacy_save_shape:
  "\<not> extraction_processed ex \<Longrightarrow> executions w1 = executions w
     \<Longrightarrow> step_shape ex w (legacy_save c ex info w1)"
  by (simp add: legacy_save_def step_shape_def Let_def subset_iff)

lemma legacy_deliver_and_save_shape:
  "\<not> extraction_processed ex \<Longrightarrow> executions w1 = executions w
     \<Longrightarrow> step_shape ex w (legacy_deliver_and_save c ex info w1)"
  by (auto simp: legacy_deliver_and_save_def shape_same legacy_save_shape
        dest!: legacy_deliver_executions split: sum.splits)

lemma legacy_body_shape: "step_shape ex w (legacy_body svc c ex w)"
  by (simp add: legacy_body_def Let_def shape_same legacy_deliver_and_save_shape)

lemma catch_shape: "step_shape ex w r \<Longrightarrow> step_shape ex w (catch_and_log r)"
  by (cases r; cases "fst r") (auto simp: catch_and_log_def step_shape_def)

lemma step_has_shape: "step_shape ex w (processTranscriptForExtraction v svc c ex w)"
  by (cases v) (simp_all add: processTranscriptForExtraction_custom_def
      processTranscriptForExtraction_legacy_def catch_shape custom_body_shape legacy_body_shape)

lemma catch_returns: "fst (catch_and_log r) = Returned ()"
  by (cases r; cases "fst r") (auto simp: catch_and_log_def)

lemma step_returns: "fst (processTranscriptForExtraction v svc c ex w) = Returned ()"
  by (cases v) (simp_all add: processTranscriptForExtraction_custom_def
      processTranscriptForExtraction_legacy_def catch_returns)

lemma catch_snd: "snd (catch_and_log r) = snd r"
  by (cases r; cases "fst r") (auto simp: catch_and_log_def)

lemma custom_save_doc: "fst (snd (custom_save c ex d meta w1)) = fst (snd (custom_save c ex d meta w2))"
  by (simp add: custom_save_def Let_def)








text \<open>
  Claim C1. When the compartment \<open>extracted_data\<close> of an execution already has
  \<open>_extraction_processed\<close> set to \<open>true\<close>, the extraction-and-delivery step, in the
  legacy doctor-info version as in the custom-fields version, returns at once: the document
  and every part of the state (the collection, the requests sent to the backend, the rows
  delivered) are what they were, whatever the transcript and the collaborators are.
\<close>

theorem processed_execution_is_left_alone:
  assumes "extracted_data execution = JObj m"
      and "m ''_extraction_processed'' = Some (JBool True)"
  shows "processTranscriptForExtraction v svc c execution w = (Returned (), execution, w)"
proof -
  have "extraction_processed execution"
    using assms by (simp add: extraction_processed_def read_prop_def)
  then have "custom_body svc c execution w = (Returned (), execution, w)"
        and "legacy_body svc c execution w = (Returned (), execution, w)"
    by (simp_all add: custom_body_def legacy_body_def)
  then show ?thesis
    by (cases v) (simp_all add: processTranscriptForExtraction_custom_def
        processTranscriptForExtraction_legacy_def catch_and_log_def)
qed

theorem processed_execution_is_left_alone_witness:
  "extracted_data processed_execution = JObj [''a'' \<mapsto> JNum 1, ''_extraction_processed'' \<mapsto> JBool True]
   \<and> [''a'' \<mapsto> JNum 1, ''_extraction_processed'' \<mapsto> JBool True] ''_extraction_processed'' = Some (JBool True)
   \<and> processTranscriptForExtraction Custom answering_service failing_sinks processed_execution empty_world
        = (Returned (), processed_execution, empty_world)
   \<and> processTranscriptForExtraction Legacy answering_service failing_sinks processed_execution empty_world
        = (Returned (), processed_execution, empty_world)"
proof -
  have h1: "extracted_data processed_execution
              = JObj [''a'' \<mapsto> JNum 1, ''_extraction_processed'' \<mapsto> JBool True]"
    by (simp add: processed_execution_def)
  have h2: "[''a'' \<mapsto> JNum 1, ''_extraction_processed'' \<mapsto> JBool True] ''_extraction_processed''
              = Some (JBool True)"
    by simp
  note custom = processed_execution_is_left_alone[OF h1 h2,
      of Custom answering_service failing_sinks empty_world]
  note legacy = processed_execution_is_left_alone[OF h1 h2,
      of Legacy answering_service failing_sinks empty_world]
  show ?thesis
    using h1 h2 custom legacy by blast
qed

lemma fieldsForAI_same:
  "map (\<lambda>f. \<lparr>field_name = field_name f, description = description f\<rparr>) fs = (fs :: custom_field list)"
  by (induction fs) auto

lemma custom_persists:
  assumes "\<not> extraction_processed ex"
      and "find_agent c (agent_id ex) = Inr (Some ag)" "truthy (client_id ag)"
      and "find_fields c (client_id ag) = Inr fs" "fs \<noteq> []"
      and "hasFoundData (fst (extractWithCustomFields svc (transcript ex) fs)) \<or> save_empty c"
      and "custom_metadata c ex ag = Inr meta"
      and "find_client c (client_id ag) = Inr cl"
  shows "fst (snd (processTranscriptForExtraction Custom svc c ex w))
           = ex\<lparr>extracted_data := JObj ((own_props (extracted_data ex))
                   (''custom_fields'' \<mapsto> JObj (fst (extractWithCustomFields svc (transcript ex) fs)),
                    ''metadata'' \<mapsto> JObj meta,
                    ''_extraction_processed'' \<mapsto> JBool True,
                    ''_extraction_date'' \<mapsto> JDate (now c)))\<rparr>
       \<and> executions (snd (snd (processTranscriptForExtraction Custom svc c ex w)))
             (bolna_execution_id ex)
           = Some (fst (snd (processTranscriptForExtraction Custom svc c ex w)))"
proof -
  have das: "custom_deliver_and_save c ex ag fs d w1
           = custom_save c ex d meta (custom_deliver c cl fs d meta w1)" for d w1
    using assms(7,8) by (simp add: custom_deliver_and_save_def)
  have "custom_body svc c ex w
      = custom_save c ex (fst (extractWithCustomFields svc (transcript ex) fs)) meta
          (custom_deliver c cl fs (fst (extractWithCustomFields svc (transcript ex) fs)) meta
             (w\<lparr>ai_requests := ai_requests w @ snd (extractWithCustomFields svc (transcript ex) fs)\<rparr>))"
    using assms(1-6) by (simp add: custom_body_def custom_extract_def Let_def fieldsForAI_same das)
  then show ?thesis
    by (simp add: processTranscriptForExtraction_custom_def catch_snd custom_save_def Let_def)
qed

lemma legacy_persists:
  assumes "\<not> extraction_processed ex"
      and "hasValidData (fst (extractDoctorInfo svc (transcript ex)))"
      and "legacy_sheetData c ex (fst (extractDoctorInfo svc (transcript ex))) = Inr sheetData"
      and "toISOString c (now c) = Inr stamp"
      and "appendToCSV c sheetData (''doctor_data_'' @ before_first CHR ''T'' stamp @ ''.csv'') = Inr ()"
  shows "fst (snd (processTranscriptForExtraction Legacy svc c ex w))
           = ex\<lparr>extracted_data := JObj ((own_props (extracted_data ex))
                   (''doctor_info'' \<mapsto> JObj (map_option JStr \<circ> fst (extractDoctorInfo svc (transcript ex))),
                    ''_extraction_processed'' \<mapsto> JBool True,
                    ''_extraction_date'' \<mapsto> JDate (now c)))\<rparr>
       \<and> executions (snd (snd (processTranscriptForExtraction Legacy svc c ex w)))
             (bolna_execution_id ex)
           = Some (fst (snd (processTranscriptForExtraction Legacy svc c ex w)))"
proof -
  have del: "\<exists>w'. legacy_deliver c sheetData w1 = Inr w'" for w1
    using assms(4,5) by (simp add: legacy_deliver_def Let_def)
  have das: "\<exists>w'. legacy_deliver_and_save c ex (fst (extractDoctorInfo svc (transcript ex))) w1
           = legacy_save c ex (fst (extractDoctorInfo svc (transcript ex))) w'" for w1
    using assms(3) del[of w1] by (auto simp: legacy_deliver_and_save_def)
  then obtain w' where "legacy_body svc c ex w
      = legacy_save c ex (fst (extractDoctorInfo svc (transcript ex))) w'"
    using assms(1,2) by (auto simp: legacy_body_def Let_def)
  then show ?thesis
    by (simp add: processTranscriptForExtraction_legacy_def catch_snd legacy_save_def Let_def)
qed

lemma custom_metadata_sinks:
  "custom_metadata (c\<lparr>appendRow := sink, sendToGoogleAppsScript := hook\<rparr>) ex ag
     = custom_metadata c ex ag"
  by (simp add: custom_metadata_def cong: sum.case_cong)

lemma legacy_sheetData_sinks:
  "legacy_sheetData (c\<lparr>appendRow := sink, sendToGoogleAppsScript := hook\<rparr>) ex info
     = legacy_sheetData c ex info"
  by (simp add: legacy_sheetData_def cong: sum.case_cong)

lemma pending_facts:
  "\<not> extraction_processed pending_execution"
  "find_agent failing_sinks (agent_id pending_execution) = Inr (Some sample_agent)"
  "truthy (client_id sample_agent)"
  "find_fields failing_sinks (client_id sample_agent) = Inr [name_field]"
  "transcript pending_execution = JStr ''My name is Asha''"
  "custom_metadata failing_sinks pending_execution sample_agent = Inr sample_metadata"
  "find_client failing_sinks (client_id sample_agent) = Inr (Some sample_client)"
  "bolna_execution_id pending_execution = JStr ''E1''"
  "extracted_data pending_execution = JObj Map.empty"
  by (simp_all add: extraction_processed_def pending_execution_def read_prop_def failing_sinks_def
        sample_agent_def custom_metadata_def sample_metadata_def js_or_def)

lemma pending_legacy_facts:
  "legacy_sheetData failing_sinks pending_execution info
     = Inr ((map_option JStr \<circ> info)
             (''call_date'' \<mapsto> JStr [], ''call_time'' \<mapsto> JStr [], ''execution_id'' \<mapsto> JStr ''E1''))"
  "toISOString failing_sinks (now failing_sinks) = Inr ''2023-11-14T22:13:20.000Z''"
  "appendToCSV failing_sinks row filename = Inr ()"
  by (simp_all add: legacy_sheetData_def pending_execution_def failing_sinks_def js_or_def)

text \<open>
  Claim C3, as amended. On an execution not yet processed, the step saves the extracted
  values with \<open>_extraction_processed = true\<close> and \<open>_extraction_date\<close> whatever the
  spreadsheet sinks do (\<open>sink\<close> and \<open>hook\<close> are arbitrary), provided that the extractor's
  result has data to save. In the custom-fields version that is: the agent, its client id and
  at least one active field are found, some value differs from \<open>"Not Found"\<close> or
  \<open>SAVE_EMPTY_EXTRACTIONS\<close> is set, and neither the metadata block nor the look-up of the
  client throws; the metadata block is saved too. In the legacy version: some value is not
  blank, and neither the row nor the CSV append throws; it saves no metadata block. With
  the only condition that the extractor returns, the claim fails: without a backend every
  value is \<open>"Not Found"\<close> and nothing is saved, as the second example after the theorem
  shows.
\<close>

theorem extraction_persisted_when_data_found:
  "(\<not> extraction_processed ex \<and>
    find_agent c (agent_id ex) = Inr (Some ag) \<and> truthy (client_id ag) \<and>
    find_fields c (client_id ag) = Inr fs \<and> fs \<noteq> [] \<and>
    (hasFoundData (fst (extractWithCustomFields svc (transcript ex) fs)) \<or> save_empty c) \<and>
    custom_metadata c ex ag = Inr meta \<and>
    find_client c (client_id ag) = Inr cl
    \<longrightarrow>
    (\<exists>saved. fst (snd (processTranscriptForExtraction Custom svc
                         (c\<lparr>appendRow := sink, sendToGoogleAppsScript := hook\<rparr>) ex w)) = saved \<and>
       executions (snd (snd (processTranscriptForExtraction Custom svc
                         (c\<lparr>appendRow := sink, sendToGoogleAppsScript := hook\<rparr>) ex w)))
         (bolna_execution_id ex) = Some saved \<and>
       extracted_data saved =
         JObj ((own_props (extracted_data ex))
                (''custom_fields'' \<mapsto> JObj (fst (extractWithCustomFields svc (transcript ex) fs)),
                 ''metadata'' \<mapsto> JObj meta,
                 ''_extraction_processed'' \<mapsto> JBool True,
                 ''_extraction_date'' \<mapsto> JDate (now c)))))
   \<and>
   (\<not> extraction_processed ex \<and>
    hasValidData (fst (extractDoctorInfo svc (transcript ex))) \<and>
    legacy_sheetData c ex (fst (extractDoctorInfo svc (transcript ex))) = Inr sheetData \<and>
    toISOString c (now c) = Inr stamp \<and>
    appendToCSV c sheetData (''doctor_data_'' @ before_first CHR ''T'' stamp @ ''.csv'') = Inr ()
    \<longrightarrow>
    (\<exists>saved. fst (snd (processTranscriptForExtraction Legacy svc
                         (c\<lparr>appendRow := sink, sendToGoogleAppsScript := hook\<rparr>) ex w)) = saved \<and>
       executions (snd (snd (processTranscriptForExtraction Legacy svc
                         (c\<lparr>appendRow := sink, sendToGoogleAppsScript := hook\<rparr>) ex w)))
         (bolna_execution_id ex) = Some saved \<and>
       extracted_data saved =
         JObj ((own_props (extracted_data ex))
                (''doctor_info'' \<mapsto> JObj (map_option JStr \<circ> fst (extractDoctorInfo svc (transcript ex))),
                 ''_extraction_processed'' \<mapsto> JBool True,
                 ''_extraction_date'' \<mapsto> JDate (now c)))))"
proof (intro conjI impI)
  let ?c = "c\<lparr>appendRow := sink, sendToGoogleAppsScript := hook\<rparr>"
  assume a: "\<not> extraction_processed ex \<and>
    find_agent c (agent_id ex) = Inr (Some ag) \<and> truthy (client_id ag) \<and>
    find_fields c (client_id ag) = Inr fs \<and> fs \<noteq> [] \<and>
    (hasFoundData (fst (extractWithCustomFields svc (transcript ex) fs)) \<or> save_empty c) \<and>
    custom_metadata c ex ag = Inr meta \<and>
    find_client c (client_id ag) = Inr cl"
  have md: "custom_metadata ?c ex ag = Inr meta"
    using a by (simp add: custom_metadata_sinks)
  from a md custom_persists[of ex ?c ag fs svc meta cl w]
  show "\<exists>saved. fst (snd (processTranscriptForExtraction Custom svc ?c ex w)) = saved \<and>
       executions (snd (snd (processTranscriptForExtraction Custom svc ?c ex w)))
         (bolna_execution_id ex) = Some saved \<and>
       extracted_data saved =
         JObj ((own_props (extracted_data ex))
                (''custom_fields'' \<mapsto> JObj (fst (extractWithCustomFields svc (transcript ex) fs)),
                 ''metadata'' \<mapsto> JObj meta,
                 ''_extraction_processed'' \<mapsto> JBool True,
                 ''_extraction_date'' \<mapsto> JDate (now c)))"
    by simp
next
  let ?c = "c\<lparr>appendRow := sink, sendToGoogleAppsScript := hook\<rparr>"
  assume a: "\<not> extraction_processed ex \<and>
    hasValidData (fst (extractDoctorInfo svc (transcript ex))) \<and>
    legacy_sheetData c ex (fst (extractDoctorInfo svc (transcript ex))) = Inr sheetData \<and>
    toISOString c (now c) = Inr stamp \<and>
    appendToCSV c sheetData (''doctor_data_'' @ before_first CHR ''T'' stamp @ ''.csv'') = Inr ()"
  have sd: "legacy_sheetData ?c ex (fst (extractDoctorInfo svc (transcript ex))) = Inr sheetData"
    using a by (simp add: legacy_sheetData_sinks)
  from a sd legacy_persists[of ex svc ?c sheetData stamp w]
  show "\<exists>saved. fst (snd (processTranscriptForExtraction Legacy svc ?c ex w)) = saved \<and>
       executions (snd (snd (processTranscriptForExtraction Legacy svc ?c ex w)))
         (bolna_execution_id ex) = Some saved \<and>
       extracted_data saved =
         JObj ((own_props (extracted_data ex))
                (''doctor_info'' \<mapsto> JObj (map_option JStr \<circ> fst (extractDoctorInfo svc (transcript ex))),
                 ''_extraction_processed'' \<mapsto> JBool True,
                 ''_extraction_date'' \<mapsto> JDate (now c)))"
    by simp
qed

theorem extraction_persisted_when_data_found_witness:
  "\<not> extraction_processed pending_execution
   \<and> find_agent failing_sinks (agent_id pending_execution) = Inr (Some sample_agent)
   \<and> find_fields failing_sinks (client_id sample_agent) = Inr [name_field]
   \<and> hasFoundData (fst (extractWithCustomFields answering_service (transcript pending_execution) [name_field]))
   \<and> (\<exists>saved.
        executions (snd (snd (processTranscriptForExtraction Custom answering_service
             (failing_sinks\<lparr>appendRow := (\<lambda>cl values. Inr ()),
                             sendToGoogleAppsScript := (\<lambda>row. True)\<rparr>)
             pending_execution empty_world))) (JStr ''E1'') = Some saved \<and>
        extracted_data saved =
          JObj [''custom_fields'' \<mapsto> JObj [''Name'' \<mapsto> JStr ''Asha''],
                ''metadata'' \<mapsto> JObj sample_metadata,
                ''_extraction_processed'' \<mapsto> JBool True,
                ''_extraction_date'' \<mapsto> JDate (JNum 1700000000000)])
   \<and> hasValidData (fst (extractDoctorInfo answering_service (transcript pending_execution)))
   \<and> (\<exists>saved.
        executions (snd (snd (processTranscriptForExtraction Legacy answering_service
             (failing_sinks\<lparr>appendRow := (\<lambda>cl values. Inr ()),
                             sendToGoogleAppsScript := (\<lambda>row. True)\<rparr>)
             pending_execution empty_world))) (JStr ''E1'') = Some saved \<and>
        extracted_data saved =
          JObj [''doctor_info'' \<mapsto> JObj (map_option JStr \<circ>
                     fst (extractDoctorInfo answering_service (transcript pending_execution))),
                ''_extraction_processed'' \<mapsto> JBool True,
                ''_extraction_date'' \<mapsto> JDate (JNum 1700000000000)])"
proof -
  let ?info = "fst (extractDoctorInfo answering_service (transcript pending_execution))"
  let ?row = "(map_option JStr \<circ> ?info)
             (''call_date'' \<mapsto> JStr [], ''call_time'' \<mapsto> JStr [], ''execution_id'' \<mapsto> JStr ''E1'')"
  have found: "hasFoundData (fst (extractWithCustomFields answering_service
                 (transcript pending_execution) [name_field]))"
    by (simp add: pending_facts answering_custom found_asha)
  have custom_hyps: "\<not> extraction_processed pending_execution \<and>
    find_agent failing_sinks (agent_id pending_execution) = Inr (Some sample_agent) \<and>
    truthy (client_id sample_agent) \<and>
    find_fields failing_sinks (client_id sample_agent) = Inr [name_field] \<and> [name_field] \<noteq> [] \<and>
    (hasFoundData (fst (extractWithCustomFields answering_service (transcript pending_execution)
                          [name_field])) \<or> save_empty failing_sinks) \<and>
    custom_metadata failing_sinks pending_execution sample_agent = Inr sample_metadata \<and>
    find_client failing_sinks (client_id sample_agent) = Inr (Some sample_client)"
    using found by (simp add: pending_facts)
  have valid: "hasValidData ?info"
    by (simp add: pending_facts valid_doctor)
  have legacy_hyps: "\<not> extraction_processed pending_execution \<and>
      hasValidData ?info \<and>
      legacy_sheetData failing_sinks pending_execution ?info = Inr ?row \<and>
      toISOString failing_sinks (now failing_sinks) = Inr ''2023-11-14T22:13:20.000Z'' \<and>
      appendToCSV failing_sinks ?row
        (''doctor_data_'' @ before_first CHR ''T'' ''2023-11-14T22:13:20.000Z'' @ ''.csv'') = Inr ()"
    using valid by (simp add: pending_facts pending_legacy_facts)
  have n: "now failing_sinks = JNum 1700000000000" by (simp add: failing_sinks_def)
  note both = extraction_persisted_when_data_found[where ex = pending_execution and c = failing_sinks
      and ag = sample_agent and fs = "[name_field]" and svc = answering_service
      and meta = sample_metadata and cl = "Some sample_client" and w = empty_world
      and sink = "\<lambda>cl values. Inr ()" and hook = "\<lambda>row. True" and sheetData = ?row
      and stamp = "''2023-11-14T22:13:20.000Z''"]
  from both custom_hyps have "\<exists>saved.
        executions (snd (snd (processTranscriptForExtraction Custom answering_service
             (failing_sinks\<lparr>appendRow := (\<lambda>cl values. Inr ()),
                             sendToGoogleAppsScript := (\<lambda>row. True)\<rparr>)
             pending_execution empty_world))) (bolna_execution_id pending_execution) = Some saved \<and>
        extracted_data saved =
          JObj ((own_props (extracted_data pending_execution))
                (''custom_fields'' \<mapsto> JObj (fst (extractWithCustomFields answering_service
                      (transcript pending_execution) [name_field])),
                 ''metadata'' \<mapsto> JObj sample_metadata,
                 ''_extraction_processed'' \<mapsto> JBool True,
                 ''_extraction_date'' \<mapsto> JDate (now failing_sinks)))"
    by blast
  then have custom: "\<exists>saved.
        executions (snd (snd (processTranscriptForExtraction Custom answering_service
             (failing_sinks\<lparr>appendRow := (\<lambda>cl values. Inr ()),
                             sendToGoogleAppsScript := (\<lambda>row. True)\<rparr>)
             pending_execution empty_world))) (JStr ''E1'') = Some saved \<and>
        extracted_data saved =
          JObj [''custom_fields'' \<mapsto> JObj [''Name'' \<mapsto> JStr ''Asha''],
                ''metadata'' \<mapsto> JObj sample_metadata,
                ''_extraction_processed'' \<mapsto> JBool True,
                ''_extraction_date'' \<mapsto> JDate (JNum 1700000000000)]"
    by (simp add: pending_facts answering_custom n)
  from both legacy_hyps have "\<exists>saved.
        executions (snd (snd (processTranscriptForExtraction Legacy answering_service
             (failing_sinks\<lparr>appendRow := (\<lambda>cl values. Inr ()),
                             sendToGoogleAppsScript := (\<lambda>row. True)\<rparr>)
             pending_execution empty_world))) (bolna_execution_id pending_execution) = Some saved \<and>
        extracted_data saved =
          JObj ((own_props (extracted_data pending_execution))
                (''doctor_info'' \<mapsto> JObj (map_option JStr \<circ> ?info),
                 ''_extraction_processed'' \<mapsto> JBool True,
                 ''_extraction_date'' \<mapsto> JDate (now failing_sinks)))"
    by blast
  then have legacy: "\<exists>saved.
        executions (snd (snd (processTranscriptForExtraction Legacy answering_service
             (failing_sinks\<lparr>appendRow := (\<lambda>cl values. Inr ()),
                             sendToGoogleAppsScript := (\<lambda>row. True)\<rparr>)
             pending_execution empty_world))) (JStr ''E1'') = Some saved \<and>
        extracted_data saved =
          JObj [''doctor_info'' \<mapsto> JObj (map_option JStr \<circ> ?info),
                ''_extraction_processed'' \<mapsto> JBool True,
                ''_extraction_date'' \<mapsto> JDate (JNum 1700000000000)]"
    by (simp add: pending_facts n)
  show ?thesis
    using found valid custom legacy by (simp add: pending_facts)
qed

theorem nothing_persisted_without_found_data:
  "\<not> extraction_processed pending_execution
   \<and> extractWithCustomFields offline_service (transcript pending_execution) [name_field]
       = ([''Name'' \<mapsto> JStr NotFound], [])
   \<and> processTranscriptForExtraction Custom offline_service failing_sinks pending_execution empty_world
       = (Returned (), pending_execution, empty_world)"
proof -
  have "custom_extract offline_service failing_sinks pending_execution sample_agent [name_field] empty_world
          = (Returned (), pending_execution, empty_world)"
    by (simp add: custom_extract_def fieldsForAI_same pending_facts offline_custom not_found_only
          Let_def failing_sinks_def empty_world_def)
  then have "custom_body offline_service failing_sinks pending_execution empty_world
          = (Returned (), pending_execution, empty_world)"
    by (simp add: custom_body_def pending_facts)
  then show ?thesis
    by (simp add: pending_facts offline_custom processTranscriptForExtraction_custom_def
          catch_and_log_def)
qed

lemma custom_body_sinks:
  "same_persisted (custom_body svc (c\<lparr>appendRow := sink, sendToGoogleAppsScript := hook\<rparr>) ex w)
                  (custom_body svc c ex w)"
  by (simp add: same_persisted_def custom_body_def custom_extract_def custom_deliver_and_save_def
        custom_metadata_def custom_save_def custom_deliver_executions Let_def
        split: sum.splits option.splits)

lemma legacy_deliver_sinks:
  "isl (legacy_deliver (c\<lparr>appendRow := sink, sendToGoogleAppsScript := hook\<rparr>) sd w) = isl (legacy_deliver c sd w)"
  by (simp add: legacy_deliver_def Let_def split: sum.splits)

lemma legacy_das_sinks:
  "same_persisted (legacy_deliver_and_save (c\<lparr>appendRow := sink, sendToGoogleAppsScript := hook\<rparr>) ex info w)
                  (legacy_deliver_and_save c ex info w)"
proof -
  let ?c = "c\<lparr>appendRow := sink, sendToGoogleAppsScript := hook\<rparr>"
  have sd: "legacy_sheetData ?c ex info = legacy_sheetData c ex info"
    by (simp add: legacy_sheetData_def cong: sum.case_cong)
  show ?thesis
  proof (cases "legacy_sheetData c ex info")
    case (Inl e)
    with sd show ?thesis by (simp add: legacy_deliver_and_save_def same_persisted_def)
  next
    case (Inr sheetData)
    show ?thesis
    proof (cases "legacy_deliver c sheetData w")
      case l: (Inl e1)
      with legacy_deliver_sinks[where c = c and sink = sink and hook = hook and sd = sheetData and w = w] obtain e2 where
        "legacy_deliver ?c sheetData w = Inl e2"
        by (cases "legacy_deliver ?c sheetData w") auto
      with Inr sd l show ?thesis by (simp add: legacy_deliver_and_save_def same_persisted_def)
    next
      case r: (Inr w1)
      with legacy_deliver_sinks[where c = c and sink = sink and hook = hook and sd = sheetData and w = w] obtain w2 where
        w2: "legacy_deliver ?c sheetData w = Inr w2"
        by (cases "legacy_deliver ?c sheetData w") auto
      have "executions w1 = executions w" using r by (rule legacy_deliver_executions)
      moreover have "executions w2 = executions w" using w2 by (rule legacy_deliver_executions)
      ultimately show ?thesis using Inr sd r w2
        by (simp add: legacy_deliver_and_save_def same_persisted_def legacy_save_def Let_def)
    qed
  qed
qed

lemma legacy_body_sinks:
  "same_persisted (legacy_body svc (c\<lparr>appendRow := sink, sendToGoogleAppsScript := hook\<rparr>) ex w)
                  (legacy_body svc c ex w)"
  using legacy_das_sinks[where c = c and sink = sink and hook = hook and ex = ex]
  by (simp add: legacy_body_def Let_def same_persisted_def)

lemma step_sinks:
  "same_persisted (processTranscriptForExtraction v svc (c\<lparr>appendRow := sink, sendToGoogleAppsScript := hook\<rparr>) ex w)
                  (processTranscriptForExtraction v svc c ex w)"
  using custom_body_sinks[where svc = svc and c = c and sink = sink and hook = hook and ex = ex and w = w]
        legacy_body_sinks[where svc = svc and c = c and sink = sink and hook = hook and ex = ex and w = w]
  by (cases v) (simp_all add: processTranscriptForExtraction_custom_def
      processTranscriptForExtraction_legacy_def catch_snd same_persisted_def)

lemma custom_body_saves:
  assumes "\<not> extraction_processed ex"
      and "find_agent c (agent_id ex) = Inr (Some ag)" "truthy (client_id ag)"
      and "find_fields c (client_id ag) = Inr fs" "fs \<noteq> []"
      and "hasFoundData (fst (extractWithCustomFields svc (transcript ex) fs)) \<or> save_empty c"
      and "custom_metadata c ex ag = Inr meta"
      and "find_client c (client_id ag) = Inr cl"
  shows "processTranscriptForExtraction Custom svc c ex w
      = custom_save c ex (fst (extractWithCustomFields svc (transcript ex) fs)) meta
          (custom_deliver c cl fs (fst (extractWithCustomFields svc (transcript ex) fs)) meta
             (w\<lparr>ai_requests := ai_requests w @ snd (extractWithCustomFields svc (transcript ex) fs)\<rparr>))"
proof -
  have das: "custom_deliver_and_save c ex ag fs d w1
           = custom_save c ex d meta (custom_deliver c cl fs d meta w1)" for d w1
    using assms(7,8) by (simp add: custom_deliver_and_save_def)
  have "custom_body svc c ex w
      = custom_save c ex (fst (extractWithCustomFields svc (transcript ex) fs)) meta
          (custom_deliver c cl fs (fst (extractWithCustomFields svc (transcript ex) fs)) meta
             (w\<lparr>ai_requests := ai_requests w @ snd (extractWithCustomFields svc (transcript ex) fs)\<rparr>))"
    using assms(1-6) by (simp add: custom_body_def custom_extract_def Let_def fieldsForAI_same das)
  then show ?thesis
    by (simp add: processTranscriptForExtraction_custom_def catch_and_log_def custom_save_def Let_def)
qed

lemma failing_append_delivers_nothing:
  "sheet_rows (custom_deliver (c\<lparr>appendRow := (\<lambda>cl values. Inl e), sendToGoogleAppsScript := hook\<rparr>)
                 cl fs d meta w) = sheet_rows w"
  by (simp add: custom_deliver_def Let_def split: option.splits)

text \<open>
  Claim C6. Replace the spreadsheet sinks by sinks that always fail (\<open>appendRow\<close> throws,
  the webhook reports failure). Then the step still returns normally; the document it leaves
  and the collection are exactly those it leaves with the original sinks; and when the step
  reaches the delivery (custom-fields version: the client has authorised Google and bound a
  sheet; legacy version: the CSV append has succeeded) the execution is saved with
  \<open>_extraction_processed = true\<close> and with its extracted values, no row having reached the
  sheet.
\<close>

theorem failing_sinks_do_not_block_processing:
  "fst (processTranscriptForExtraction v svc
          (c\<lparr>appendRow := (\<lambda>cl values. Inl e), sendToGoogleAppsScript := (\<lambda>row. False)\<rparr>) ex w)
     = Returned ()
   \<and> fst (snd (processTranscriptForExtraction v svc
          (c\<lparr>appendRow := (\<lambda>cl values. Inl e), sendToGoogleAppsScript := (\<lambda>row. False)\<rparr>) ex w))
     = fst (snd (processTranscriptForExtraction v svc c ex w))
   \<and> executions (snd (snd (processTranscriptForExtraction v svc
          (c\<lparr>appendRow := (\<lambda>cl values. Inl e), sendToGoogleAppsScript := (\<lambda>row. False)\<rparr>) ex w)))
     = executions (snd (snd (processTranscriptForExtraction v svc c ex w)))
   \<and> (\<not> extraction_processed ex \<and>
      find_agent c (agent_id ex) = Inr (Some ag) \<and> truthy (client_id ag) \<and>
      find_fields c (client_id ag) = Inr fs \<and> fs \<noteq> [] \<and>
      (hasFoundData (fst (extractWithCustomFields svc (transcript ex) fs)) \<or> save_empty c) \<and>
      custom_metadata c ex ag = Inr meta \<and>
      find_client c (client_id ag) = Inr (Some cl) \<and>
      google_authorized cl \<and> truthy (google_sheet_id cl)
      \<longrightarrow>
      (\<exists>saved w'.
         processTranscriptForExtraction Custom svc
           (c\<lparr>appendRow := (\<lambda>cl values. Inl e), sendToGoogleAppsScript := (\<lambda>row. False)\<rparr>) ex w
           = (Returned (), saved, w') \<and>
         executions w' (bolna_execution_id ex) = Some saved \<and>
         read_prop (extracted_data saved) ''_extraction_processed'' = JBool True \<and>
         read_prop (extracted_data saved) ''custom_fields''
           = JObj (fst (extractWithCustomFields svc (transcript ex) fs)) \<and>
         sheet_rows w' = sheet_rows w))
   \<and> (\<not> extraction_processed ex \<and>
      hasValidData (fst (extractDoctorInfo svc (transcript ex))) \<and>
      legacy_sheetData c ex (fst (extractDoctorInfo svc (transcript ex))) = Inr sheetData \<and>
      toISOString c (now c) = Inr stamp \<and>
      appendToCSV c sheetData (''doctor_data_'' @ before_first CHR ''T'' stamp @ ''.csv'') = Inr ()
      \<longrightarrow>
      (\<exists>saved w'.
         processTranscriptForExtraction Legacy svc
           (c\<lparr>appendRow := (\<lambda>cl values. Inl e), sendToGoogleAppsScript := (\<lambda>row. False)\<rparr>) ex w
           = (Returned (), saved, w') \<and>
         executions w' (bolna_execution_id ex) = Some saved \<and>
         read_prop (extracted_data saved) ''_extraction_processed'' = JBool True \<and>
         read_prop (extracted_data saved) ''doctor_info''
           = JObj (map_option JStr \<circ> fst (extractDoctorInfo svc (transcript ex)))))"
proof (intro conjI impI)
  let ?c = "c\<lparr>appendRow := (\<lambda>cl values. Inl e), sendToGoogleAppsScript := (\<lambda>row. False)\<rparr>"
  show "fst (processTranscriptForExtraction v svc ?c ex w) = Returned ()"
    by (rule step_returns)
  have same: "same_persisted (processTranscriptForExtraction v svc ?c ex w)
                (processTranscriptForExtraction v svc c ex w)"
    by (rule step_sinks)
  from same show "fst (snd (processTranscriptForExtraction v svc ?c ex w))
          = fst (snd (processTranscriptForExtraction v svc c ex w))"
    by (simp add: same_persisted_def)
  from same show "executions (snd (snd (processTranscriptForExtraction v svc ?c ex w)))
          = executions (snd (snd (processTranscriptForExtraction v svc c ex w)))"
    by (simp add: same_persisted_def)
next
  let ?c = "c\<lparr>appendRow := (\<lambda>cl values. Inl e), sendToGoogleAppsScript := (\<lambda>row. False)\<rparr>"
  let ?d = "fst (extractWithCustomFields svc (transcript ex) fs)"
  assume a: "\<not> extraction_processed ex \<and>
      find_agent c (agent_id ex) = Inr (Some ag) \<and> truthy (client_id ag) \<and>
      find_fields c (client_id ag) = Inr fs \<and> fs \<noteq> [] \<and>
      (hasFoundData ?d \<or> save_empty c) \<and>
      custom_metadata c ex ag = Inr meta \<and>
      find_client c (client_id ag) = Inr (Some cl) \<and>
      google_authorized cl \<and> truthy (google_sheet_id cl)"
  have md: "custom_metadata ?c ex ag = Inr meta"
    using a by (simp add: custom_metadata_sinks)
  have eq: "processTranscriptForExtraction Custom svc ?c ex w
      = custom_save ?c ex ?d meta
          (custom_deliver ?c (Some cl) fs ?d meta
             (w\<lparr>ai_requests := ai_requests w @ snd (extractWithCustomFields svc (transcript ex) fs)\<rparr>))"
  proof (rule custom_body_saves)
    show "\<not> extraction_processed ex" using a by blast
    show "find_agent ?c (agent_id ex) = Inr (Some ag)" using a by simp
    show "truthy (client_id ag)" using a by blast
    show "find_fields ?c (client_id ag) = Inr fs" using a by simp
    show "fs \<noteq> []" using a by blast
    show "hasFoundData ?d \<or> save_empty ?c" using a by simp
    show "custom_metadata ?c ex ag = Inr meta" by (rule md)
    show "find_client ?c (client_id ag) = Inr (Some cl)" using a by simp
  qed
  obtain saved w' where r: "processTranscriptForExtraction Custom svc ?c ex w = (Returned (), saved, w')"
    using eq by (simp add: custom_save_def Let_def)
  have "executions w' (bolna_execution_id ex) = Some saved"
       "read_prop (extracted_data saved) ''_extraction_processed'' = JBool True"
       "read_prop (extracted_data saved) ''custom_fields'' = JObj ?d"
       "sheet_rows w' = sheet_rows w"
    using r eq failing_append_delivers_nothing[where c = c and e = e and hook = "\<lambda>row. False"]
    by (auto simp: custom_save_def Let_def read_prop_def)
  with r show "\<exists>saved w'.
         processTranscriptForExtraction Custom svc ?c ex w = (Returned (), saved, w') \<and>
         executions w' (bolna_execution_id ex) = Some saved \<and>
         read_prop (extracted_data saved) ''_extraction_processed'' = JBool True \<and>
         read_prop (extracted_data saved) ''custom_fields'' = JObj ?d \<and>
         sheet_rows w' = sheet_rows w"
    by blast
next
  let ?c = "c\<lparr>appendRow := (\<lambda>cl values. Inl e), sendToGoogleAppsScript := (\<lambda>row. False)\<rparr>"
  let ?info = "fst (extractDoctorInfo svc (transcript ex))"
  assume a: "\<not> extraction_processed ex \<and>
      hasValidData ?info \<and>
      legacy_sheetData c ex ?info = Inr sheetData \<and>
      toISOString c (now c) = Inr stamp \<and>
      appendToCSV c sheetData (''doctor_data_'' @ before_first CHR ''T'' stamp @ ''.csv'') = Inr ()"
  have sd: "legacy_sheetData ?c ex ?info = Inr sheetData"
    using a by (simp add: legacy_sheetData_sinks)
  obtain out saved w' where r: "processTranscriptForExtraction Legacy svc ?c ex w = (out, saved, w')"
    by (cases "processTranscriptForExtraction Legacy svc ?c ex w") auto
  have "out = Returned ()"
    using step_returns[of Legacy svc ?c ex w] r by simp
  moreover have "saved = ex\<lparr>extracted_data := JObj ((own_props (extracted_data ex))
                   (''doctor_info'' \<mapsto> JObj (map_option JStr \<circ> ?info),
                    ''_extraction_processed'' \<mapsto> JBool True,
                    ''_extraction_date'' \<mapsto> JDate (now ?c)))\<rparr>"
      and "executions w' (bolna_execution_id ex) = Some saved"
    using a sd legacy_persists[of ex svc ?c sheetData stamp w] r by simp_all
  ultimately show "\<exists>saved w'.
         processTranscriptForExtraction Legacy svc ?c ex w = (Returned (), saved, w') \<and>
         executions w' (bolna_execution_id ex) = Some saved \<and>
         read_prop (extracted_data saved) ''_extraction_processed'' = JBool True \<and>
         read_prop (extracted_data saved) ''doctor_info'' = JObj (map_option JStr \<circ> ?info)"
    using r by (simp add: read_prop_def)
qed

theorem failing_sinks_do_not_block_processing_witness:
  "\<not> extraction_processed pending_execution
   \<and> find_client failing_sinks (client_id sample_agent) = Inr (Some sample_client)
   \<and> google_authorized sample_client \<and> truthy (google_sheet_id sample_client)
   \<and> hasFoundData (fst (extractWithCustomFields answering_service (transcript pending_execution)
                           [name_field]))
   \<and> (\<exists>saved w'.
         processTranscriptForExtraction Custom answering_service
           (failing_sinks\<lparr>appendRow := (\<lambda>cl values. Inl (Failure ''append failed'')),
                           sendToGoogleAppsScript := (\<lambda>row. False)\<rparr>)
           pending_execution empty_world = (Returned (), saved, w') \<and>
         executions w' (JStr ''E1'') = Some saved \<and>
         read_prop (extracted_data saved) ''_extraction_processed'' = JBool True \<and>
         read_prop (extracted_data saved) ''custom_fields'' = JObj [''Name'' \<mapsto> JStr ''Asha''] \<and>
         sheet_rows w' = [])
   \<and> hasValidData (fst (extractDoctorInfo answering_service (transcript pending_execution)))
   \<and> (\<exists>saved w'.
         processTranscriptForExtraction Legacy answering_service
           (failing_sinks\<lparr>appendRow := (\<lambda>cl values. Inl (Failure ''append failed'')),
                           sendToGoogleAppsScript := (\<lambda>row. False)\<rparr>)
           pending_execution empty_world = (Returned (), saved, w') \<and>
         executions w' (JStr ''E1'') = Some saved \<and>
         read_prop (extracted_data saved) ''_extraction_processed'' = JBool True)"
proof -
  let ?info = "fst (extractDoctorInfo answering_service (transcript pending_execution))"
  let ?row = "(map_option JStr \<circ> ?info)
             (''call_date'' \<mapsto> JStr [], ''call_time'' \<mapsto> JStr [], ''execution_id'' \<mapsto> JStr ''E1'')"
  have found: "hasFoundData (fst (extractWithCustomFields answering_service
                 (transcript pending_execution) [name_field]))"
    by (simp add: pending_facts answering_custom found_asha)
  have sheet: "google_authorized sample_client" "truthy (google_sheet_id sample_client)"
    by (simp_all add: sample_client_def)
  have custom_hyps: "\<not> extraction_processed pending_execution \<and>
      find_agent failing_sinks (agent_id pending_execution) = Inr (Some sample_agent) \<and>
      truthy (client_id sample_agent) \<and>
      find_fields failing_sinks (client_id sample_agent) = Inr [name_field] \<and> [name_field] \<noteq> [] \<and>
      (hasFoundData (fst (extractWithCustomFields answering_service (transcript pending_execution)
                            [name_field])) \<or> save_empty failing_sinks) \<and>
      custom_metadata failing_sinks pending_execution sample_agent = Inr sample_metadata \<and>
      find_client failing_sinks (client_id sample_agent) = Inr (Some sample_client) \<and>
      google_authorized sample_client \<and> truthy (google_sheet_id sample_client)"
    using found sheet by (simp add: pending_facts)
  have valid: "hasValidData ?info"
    by (simp add: pending_facts valid_doctor)
  have legacy_hyps: "\<not> extraction_processed pending_execution \<and>
      hasValidData ?info \<and>
      legacy_sheetData failing_sinks pending_execution ?info = Inr ?row \<and>
      toISOString failing_sinks (now failing_sinks) = Inr ''2023-11-14T22:13:20.000Z'' \<and>
      appendToCSV failing_sinks ?row
        (''doctor_data_'' @ before_first CHR ''T'' ''2023-11-14T22:13:20.000Z'' @ ''.csv'') = Inr ()"
    using valid by (simp add: pending_facts pending_legacy_facts)
  note all = failing_sinks_do_not_block_processing[where ex = pending_execution and c = failing_sinks
      and ag = sample_agent and fs = "[name_field]" and svc = answering_service
      and meta = sample_metadata and cl = sample_client and w = empty_world
      and e = "Failure ''append failed''" and sheetData = ?row
      and stamp = "''2023-11-14T22:13:20.000Z''"]
  from all custom_hyps have "\<exists>saved w'.
         processTranscriptForExtraction Custom answering_service
           (failing_sinks\<lparr>appendRow := (\<lambda>cl values. Inl (Failure ''append failed'')),
                           sendToGoogleAppsScript := (\<lambda>row. False)\<rparr>)
           pending_execution empty_world = (Returned (), saved, w') \<and>
         executions w' (bolna_execution_id pending_execution) = Some saved \<and>
         read_prop (extracted_data saved) ''_extraction_processed'' = JBool True \<and>
         read_prop (extracted_data saved) ''custom_fields''
           = JObj (fst (extractWithCustomFields answering_service (transcript pending_execution)
                          [name_field])) \<and>
         sheet_rows w' = sheet_rows empty_world"
    by blast
  then have custom: "\<exists>saved w'.
         processTranscriptForExtraction Custom answering_service
           (failing_sinks\<lparr>appendRow := (\<lambda>cl values. Inl (Failure ''append failed'')),
                           sendToGoogleAppsScript := (\<lambda>row. False)\<rparr>)
           pending_execution empty_world = (Returned (), saved, w') \<and>
         executions w' (JStr ''E1'') = Some saved \<and>
         read_prop (extracted_data saved) ''_extraction_processed'' = JBool True \<and>
         read_prop (extracted_data saved) ''custom_fields'' = JObj [''Name'' \<mapsto> JStr ''Asha''] \<and>
         sheet_rows w' = []"
    by (simp add: pending_facts answering_custom empty_world_def)
  from all legacy_hyps have "\<exists>saved w'.
         processTranscriptForExtraction Legacy answering_service
           (failing_sinks\<lparr>appendRow := (\<lambda>cl values. Inl (Failure ''append failed'')),
                           sendToGoogleAppsScript := (\<lambda>row. False)\<rparr>)
           pending_execution empty_world = (Returned (), saved, w') \<and>
         executions w' (bolna_execution_id pending_execution) = Some saved \<and>
         read_prop (extracted_data saved) ''_extraction_processed'' = JBool True \<and>
         read_prop (extracted_data saved) ''doctor_info'' = JObj (map_option JStr \<circ> ?info)"
    by blast
  then have legacy: "\<exists>saved w'.
         processTranscriptForExtraction Legacy answering_service
           (failing_sinks\<lparr>appendRow := (\<lambda>cl values. Inl (Failure ''append failed'')),
                           sendToGoogleAppsScript := (\<lambda>row. False)\<rparr>)
           pending_execution empty_world = (Returned (), saved, w') \<and>
         executions w' (JStr ''E1'') = Some saved \<and>
         read_prop (extracted_data saved) ''_extraction_processed'' = JBool True"
    by (auto simp: pending_facts)
  show ?thesis
    using found sheet valid custom legacy by (simp add: pending_facts)
qed

section \<open>Properties of the record reconciler\<close>

lemma get_prop_read: "get_prop r k = Inr x \<Longrightarrow> x = read_prop r k"
  by (cases r) auto

lemma upsert_skip:
  "\<not> truthy (executionId_of r) \<Longrightarrow> snd (upsertExecution v svc c a r w) = w"
  by (auto simp: upsertExecution_def executionId_of_def Let_def split: sum.splits dest!: get_prop_read)

lemma id_written: "bolna_execution_id (written_doc c a r w) = executionId_of r"
  by (simp add: written_doc_def executionDoc_def Let_def)

lemma step_store:
  assumes "bolna_execution_id E = i" "executions w1 = (executions w)(i \<mapsto> E)"
  shows "executions (snd (snd (processTranscriptForExtraction v svc c E w1)))
          = (executions w)(i \<mapsto> fst (snd (processTranscriptForExtraction v svc c E w1)))"
  using step_has_shape[of E w1 v svc c] assms
  by (cases "processTranscriptForExtraction v svc c E w1") (auto simp: step_shape_def)

lemma upsert_executions:
  assumes "truthy (executionId_of r)"
  shows "executions (snd (upsertExecution v svc c a r w))
           = (executions w)(executionId_of r \<mapsto> stored_doc v svc c a r w)"
proof -
  from assms obtain x where gx: "get_prop r ''id'' = Inr x"
    by (cases r) (auto simp: executionId_of_def js_or_def read_prop_def)
  then have x: "x = read_prop r ''id''" by (rule get_prop_read)
  let ?E = "written_doc c a r w"
  let ?w1 = "w\<lparr>executions := (executions w)(executionId_of r \<mapsto> ?E)\<rparr>"
  have st: "executions (snd (snd (processTranscriptForExtraction v svc c ?E ?w1)))
          = (executions w)(executionId_of r \<mapsto> fst (snd (processTranscriptForExtraction v svc c ?E ?w1)))"
    by (rule step_store) (simp_all add: id_written)
  show ?thesis
  proof (cases "nonblank (transcript ?E)")
    case True
    then obtain t where t: "transcript ?E = JStr t" "t \<noteq> []" "trim t \<noteq> []"
      by (auto simp: nonblank_def split: jsval.splits)
    obtain out ex' w2 where p: "processTranscriptForExtraction v svc c ?E ?w1 = (out, ex', w2)"
      by (cases "processTranscriptForExtraction v svc c ?E ?w1") auto
    have "snd (upsertExecution v svc c a r w) = w2"
      using assms gx x t p
      by (simp add: upsertExecution_def Let_def executionId_of_def[symmetric] written_doc_def[symmetric]
            split: outcome.splits)
    moreover have "stored_doc v svc c a r w = ex'"
      using True p by (simp add: stored_doc_def Let_def)
    ultimately show ?thesis using st p by simp
  next
    case False
    have "snd (upsertExecution v svc c a r w) = ?w1"
      using assms gx x False
      by (auto simp add: upsertExecution_def Let_def executionId_of_def[symmetric] written_doc_def[symmetric]
            nonblank_def split: jsval.splits)
    moreover have "stored_doc v svc c a r w = ?E"
      using False by (simp add: stored_doc_def Let_def)
    ultimately show ?thesis by simp
  qed
qed

lemma conversationTime_first_truthy:
  "conversationTime r = first_truthy (map (read_prop r) duration_candidates) (JNum 0)"
  by (simp add: conversationTime_def first_truthy_def duration_candidates_def js_or_def)

lemma written_conversation_time: "conversation_time (written_doc c a r w) = conversationTime r"
  by (simp add: written_doc_def executionDoc_def Let_def)

lemma step_doc_cases:
  "fst (snd (processTranscriptForExtraction v svc c E w)) = E \<or>
   (\<not> extraction_processed E \<and>
    (\<exists>m. fst (snd (processTranscriptForExtraction v svc c E w)) = E\<lparr>extracted_data := JObj m\<rparr>
       \<and> m ''_extraction_processed'' = Some (JBool True)
       \<and> dom (own_props (extracted_data E)) \<subseteq> dom m))"
proof -
  obtain out ex' w' where p: "processTranscriptForExtraction v svc c E w = (out, ex', w')"
    by (cases "processTranscriptForExtraction v svc c E w") auto
  from step_has_shape[of E w v svc c] p
  have "ex' = E \<or> (\<not> extraction_processed E \<and> ex' = E\<lparr>extracted_data := extracted_data ex'\<rparr>
        \<and> (case extracted_data ex' of JObj m \<Rightarrow> m ''_extraction_processed'' = Some (JBool True) \<and>
                    dom (own_props (extracted_data E)) \<subseteq> dom m | _ \<Rightarrow> False))"
    by (auto simp: step_shape_def)
  then show ?thesis
  proof
    assume "ex' = E" with p show ?thesis by simp
  next
    assume a: "\<not> extraction_processed E \<and> ex' = E\<lparr>extracted_data := extracted_data ex'\<rparr>
        \<and> (case extracted_data ex' of JObj m \<Rightarrow> m ''_extraction_processed'' = Some (JBool True) \<and>
                    dom (own_props (extracted_data E)) \<subseteq> dom m | _ \<Rightarrow> False)"
    then obtain m where m: "extracted_data ex' = JObj m" "m ''_extraction_processed'' = Some (JBool True)"
        "dom (own_props (extracted_data E)) \<subseteq> dom m"
      by (cases "extracted_data ex'") auto
    with a have "ex' = E\<lparr>extracted_data := JObj m\<rparr>" by simp
    with a m p show ?thesis by auto
  qed
qed

lemma stored_doc_cases:
  "stored_doc v svc c a r w = written_doc c a r w \<or>
   (\<not> extraction_processed (written_doc c a r w) \<and>
    (\<exists>m. stored_doc v svc c a r w = (written_doc c a r w)\<lparr>extracted_data := JObj m\<rparr>
       \<and> m ''_extraction_processed'' = Some (JBool True)
       \<and> dom (own_props (extracted_data (written_doc c a r w))) \<subseteq> dom m))"
  using step_doc_cases[of v svc c "written_doc c a r w"]
  by (simp add: stored_doc_def Let_def)

lemma stored_conversation_time:
  "conversation_time (stored_doc v svc c a r w) = conversationTime r"
  using stored_doc_cases[of v svc c a r w]
  by (auto simp: written_conversation_time)

text \<open>
  Claim C8, as amended. For a remote record with an id, the stored \<open>conversation_time\<close> is
  the first truthy value among \<open>conversation_duration\<close>, \<open>conversation_time\<close>, \<open>duration\<close>,
  \<open>call_duration\<close>, \<open>call_duration_seconds\<close>, \<open>billable_duration\<close>, in this order, and
  \<open>0\<close> when none is truthy. A candidate that is present with the value \<open>0\<close> is passed
  over like an absent one: with \<open>conversation_duration: 0\<close> and \<open>duration: 42\<close> the
  stored value is \<open>42\<close>, as the second example after the theorem shows.
\<close>

theorem duration_is_first_truthy_candidate:
  assumes "truthy (executionId_of executionData)"
  shows "\<exists>stored.
           executions (snd (upsertExecution v svc c agentId executionData w))
             (executionId_of executionData) = Some stored \<and>
           conversation_time stored
             = first_truthy (map (read_prop executionData) duration_candidates) (JNum 0)"
proof -
  have "executions (snd (upsertExecution v svc c agentId executionData w))
          (executionId_of executionData) = Some (stored_doc v svc c agentId executionData w)"
    using assms by (simp add: upsert_executions)
  moreover have "conversation_time (stored_doc v svc c agentId executionData w)
          = conversationTime executionData"
    by (rule stored_conversation_time)
  ultimately show ?thesis
    by (simp add: conversationTime_first_truthy)
qed

theorem duration_is_first_truthy_candidate_witness:
  "truthy (executionId_of scenario_record)
   \<and> (\<exists>stored.
         executions (snd (upsertExecution Custom offline_service failing_sinks (JStr ''a1'')
                            scenario_record empty_world)) (executionId_of scenario_record) = Some stored \<and>
         conversation_time stored = JNum 42)"
proof -
  have h: "truthy (executionId_of scenario_record)"
    by (simp add: executionId_of_def scenario_record_def read_prop_def js_or_def)
  have f: "first_truthy (map (read_prop scenario_record) duration_candidates) (JNum 0) = JNum 42"
    by (simp add: first_truthy_def duration_candidates_def scenario_record_def read_prop_def)
  from duration_is_first_truthy_candidate[OF h, of Custom offline_service failing_sinks "JStr ''a1''" empty_world]
  show ?thesis using h unfolding f by blast
qed

theorem zero_duration_is_skipped:
  "map_option conversation_time
     (executions (snd (upsertExecution Custom offline_service failing_sinks (JStr ''a1'')
                         zero_duration_record empty_world)) (JStr ''E1'')) = Some (JNum 42)
   \<and> first_present_non_null (map (read_prop zero_duration_record) duration_candidates) (JNum 0)
       = JNum 0"
proof -
  have i: "executionId_of zero_duration_record = JStr ''E1''"
    by (simp add: executionId_of_def zero_duration_record_def read_prop_def js_or_def)
  have "executions (snd (upsertExecution Custom offline_service failing_sinks (JStr ''a1'')
                         zero_duration_record empty_world)) (JStr ''E1'')
          = Some (stored_doc Custom offline_service failing_sinks (JStr ''a1'')
                    zero_duration_record empty_world)"
    using upsert_executions[of zero_duration_record Custom offline_service failing_sinks
            "JStr ''a1''" empty_world]
    by (simp add: i)
  moreover have "conversationTime zero_duration_record = JNum 42"
    by (simp add: conversationTime_def zero_duration_record_def read_prop_def js_or_def)
  moreover have "first_present_non_null (map (read_prop zero_duration_record) duration_candidates)
                   (JNum 0) = JNum 0"
    by (simp add: first_present_non_null_def duration_candidates_def zero_duration_record_def
          read_prop_def)
  ultimately show ?thesis
    by (simp add: stored_conversation_time)
qed




lemma written_extracted: "extracted_data (written_doc c a r w)
   = finalExtractedData r (executions w (executionId_of r))"
  by (simp add: written_doc_def executionDoc_def Let_def)


text \<open>
  Claim C2. When the collection holds, under the id of the remote record, a document whose
  compartment has \<open>_extraction_processed = true\<close>, \<open>upsertExecution\<close> stores as compartment
  the remote one (or the empty object when the remote record has none) with the stored one
  laid over it: a key of the stored compartment keeps the stored value, and any other key
  has the remote value. The example that follows the theorem is the one of
  the specification, the flag \<open>processed\<close> being \<open>_extraction_processed\<close> in the code:
  stored \<open>{a: 1, _extraction_processed: true}\<close> and remote \<open>{b: 2}\<close> give
  \<open>{b: 2, a: 1, _extraction_processed: true}\<close>.
\<close>

theorem merge_keeps_processed_compartment:
  assumes "executions w (executionId_of executionData) = Some previous"
      and "extracted_data previous = JObj p"
      and "p ''_extraction_processed'' = Some (JBool True)"
      and "truthy (executionId_of executionData)"
  shows "\<exists>stored merged.
           executions (snd (upsertExecution v svc c agentId executionData w))
             (executionId_of executionData) = Some stored \<and>
           extracted_data stored = JObj merged \<and>
           merged = own_props (js_or (read_prop executionData ''extracted_data'') (JObj Map.empty)) ++ p \<and>
           (\<forall>k. merged k =
              (case p k of
                 Some x \<Rightarrow> Some x
               | None \<Rightarrow> own_props (js_or (read_prop executionData ''extracted_data'')
                                      (JObj Map.empty)) k))"
proof -
  let ?remote = "js_or (read_prop executionData ''extracted_data'') (JObj Map.empty)"
  let ?written = "written_doc c agentId executionData w"
  have pp: "extraction_processed previous"
    using assms(2,3) by (simp add: extraction_processed_def read_prop_def)
  have fe: "extracted_data ?written = JObj (own_props ?remote ++ p)"
    using assms(1,2) pp by (simp add: written_extracted finalExtractedData_def Let_def)
  have "extraction_processed ?written"
    using fe assms(3) by (simp add: extraction_processed_def read_prop_def)
  with stored_doc_cases[of v svc c agentId executionData w]
  have "stored_doc v svc c agentId executionData w = ?written"
    by auto
  with fe assms(4) have
    "executions (snd (upsertExecution v svc c agentId executionData w))
        (executionId_of executionData) = Some ?written"
    by (simp add: upsert_executions)
  moreover have "(own_props ?remote ++ p) k =
      (case p k of Some x \<Rightarrow> Some x | None \<Rightarrow> own_props ?remote k)" for k
    by (simp add: map_add_def split: option.splits)
  ultimately show ?thesis using fe by blast
qed

theorem merge_precedence_example:
  "executions world_with_processed (executionId_of refetched_record) = Some processed_execution
   \<and> extracted_data processed_execution = JObj [''a'' \<mapsto> JNum 1, ''_extraction_processed'' \<mapsto> JBool True]
   \<and> truthy (executionId_of refetched_record)
   \<and> (\<exists>stored.
         executions (snd (upsertExecution Custom answering_service failing_sinks (JStr ''a1'')
                            refetched_record world_with_processed)) (JStr ''E1'') = Some stored \<and>
         extracted_data stored
           = JObj [''b'' \<mapsto> JNum 2, ''a'' \<mapsto> JNum 1, ''_extraction_processed'' \<mapsto> JBool True])"
proof -
  have i: "executionId_of refetched_record = JStr ''E1''"
    by (simp add: executionId_of_def refetched_record_def read_prop_def js_or_def)
  have h1: "executions world_with_processed (executionId_of refetched_record) = Some processed_execution"
    by (simp add: i world_with_processed_def)
  have h2: "extracted_data processed_execution
              = JObj [''a'' \<mapsto> JNum 1, ''_extraction_processed'' \<mapsto> JBool True]"
    by (simp add: processed_execution_def)
  have h3: "[''a'' \<mapsto> JNum 1, ''_extraction_processed'' \<mapsto> JBool True] ''_extraction_processed''
              = Some (JBool True)"
    by simp
  have h4: "truthy (executionId_of refetched_record)" by (simp add: i)
  have r: "own_props (js_or (read_prop refetched_record ''extracted_data'') (JObj Map.empty))
            = [''b'' \<mapsto> JNum 2]"
    by (simp add: refetched_record_def read_prop_def js_or_def)
  have m: "[''b'' \<mapsto> JNum 2] ++ [''a'' \<mapsto> JNum 1, ''_extraction_processed'' \<mapsto> JBool True]
            = [''b'' \<mapsto> JNum 2, ''a'' \<mapsto> JNum 1, ''_extraction_processed'' \<mapsto> JBool True]"
    by (simp add: fun_eq_iff map_add_def)
  from merge_keeps_processed_compartment[OF h1 h2 h3 h4, of Custom answering_service failing_sinks "JStr ''a1''"]
  obtain stored where
    "executions (snd (upsertExecution Custom answering_service failing_sinks (JStr ''a1'')
                            refetched_record world_with_processed)) (JStr ''E1'') = Some stored"
    "extracted_data stored
       = JObj [''b'' \<mapsto> JNum 2, ''a'' \<mapsto> JNum 1, ''_extraction_processed'' \<mapsto> JBool True]"
    unfolding i r m by blast
  with h1 h2 h4 show ?thesis by blast
qed




























lemma stored_fields:
  "total_cost (stored_doc v svc c a r w) = costInDollars c r"
  "status (stored_doc v svc c a r w) = js_or (read_prop r ''status'') (JStr ''pending'')"
  using stored_doc_cases[of v svc c a r w]
  by (auto simp: written_doc_def executionDoc_def Let_def)

text \<open>
  For a remote record with an id, the stored \<open>total_cost\<close> is the quotient of the record's
  \<open>total_cost\<close> by \<open>100\<close> when that value is truthy and \<open>0\<close> otherwise, and the stored
  \<open>status\<close> is the record's \<open>status\<close> when it is truthy and \<open>pending\<close> otherwise.
\<close>

theorem stored_cost_and_default_status:
  assumes "truthy (executionId_of executionData)"
  shows "\<exists>stored.
           executions (snd (upsertExecution v svc c agentId executionData w))
             (executionId_of executionData) = Some stored \<and>
           total_cost stored
             = (if truthy (read_prop executionData ''total_cost'')
                then divide_by_100 c (read_prop executionData ''total_cost'') else JNum 0) \<and>
           status stored = js_or (read_prop executionData ''status'') (JStr ''pending'')"
proof -
  have "executions (snd (upsertExecution v svc c agentId executionData w))
          (executionId_of executionData) = Some (stored_doc v svc c agentId executionData w)"
    using assms by (simp add: upsert_executions)
  then show ?thesis
    by (simp add: stored_fields costInDollars_def Let_def)
qed

theorem stored_cost_and_default_status_witness:
  "truthy (executionId_of scenario_record)
   \<and> (\<exists>stored.
         executions (snd (upsertExecution Custom offline_service
                            (failing_sinks\<lparr>divide_by_100 := (\<lambda>x. JNum (5 / 2))\<rparr>) (JStr ''a1'')
                            scenario_record empty_world)) (JStr ''E1'') = Some stored \<and>
         total_cost stored = JNum (5 / 2) \<and> status stored = JStr ''pending'')"
proof -
  have i: "executionId_of scenario_record = JStr ''E1''"
    by (simp add: executionId_of_def scenario_record_def read_prop_def js_or_def)
  have h1: "truthy (executionId_of scenario_record)" by (simp add: i)
  have s: "js_or (read_prop scenario_record ''status'') (JStr ''pending'') = JStr ''pending''"
    by (simp add: scenario_record_def read_prop_def js_or_def)
  have t: "read_prop scenario_record ''total_cost'' = JNum 250"
    by (simp add: scenario_record_def read_prop_def)
  from stored_cost_and_default_status[OF h1,
      of Custom offline_service "failing_sinks\<lparr>divide_by_100 := (\<lambda>x. JNum (5 / 2))\<rparr>"
         "JStr ''a1''" empty_world]
  have "\<exists>stored.
         executions (snd (upsertExecution Custom offline_service
                            (failing_sinks\<lparr>divide_by_100 := (\<lambda>x. JNum (5 / 2))\<rparr>) (JStr ''a1'')
                            scenario_record empty_world)) (JStr ''E1'') = Some stored \<and>
         total_cost stored = JNum (5 / 2) \<and> status stored = JStr ''pending''"
    unfolding i s t by simp
  with h1 show ?thesis by (intro conjI)
qed

text \<open>
  A remote record with neither a truthy \<open>id\<close> nor a truthy \<open>execution_id\<close> is skipped:
  \<open>upsertExecution\<close> returns nothing and the state is unchanged.
\<close>

theorem record_without_id_is_skipped:
  assumes "executionData \<noteq> JUndefined" and "executionData \<noteq> JNull"
      and "\<not> truthy (executionId_of executionData)"
  shows "upsertExecution v svc c agentId executionData w = (Returned None, w)"
proof -
  from assms(1,2) have "get_prop executionData ''id'' = Inr (read_prop executionData ''id'')"
    by (cases executionData) simp_all
  with assms(3) show ?thesis
    by (simp add: upsertExecution_def executionId_of_def Let_def)
qed

theorem record_without_id_is_skipped_witness:
  "JObj [''status'' \<mapsto> JStr ''completed''] \<noteq> JUndefined
   \<and> JObj [''status'' \<mapsto> JStr ''completed''] \<noteq> JNull
   \<and> upsertExecution Custom answering_service failing_sinks (JStr ''a1'')
        (JObj [''status'' \<mapsto> JStr ''completed'']) empty_world = (Returned None, empty_world)"
proof -
  have h: "\<not> truthy (executionId_of (JObj [''status'' \<mapsto> JStr ''completed'']))"
    by (simp add: executionId_of_def read_prop_def js_or_def)
  from record_without_id_is_skipped[OF _ _ h, of Custom answering_service failing_sinks
         "JStr ''a1''" empty_world]
  show ?thesis by simp
qed

section \<open>Properties of the sync orchestrator\<close>

lemma sync_page_step:
  assumes "fetchExecutionsForAgent c b k 50 = Inr (JObj p)"
      and "p ''data'' = Some (JArr d)" and "p ''has_more'' = Some (JBool has_more)"
  shows "sync_pages v svc c b ag k n w tr =
           (case upsert_each v svc c (agent_oid ag) d n w (tr @ [Fetched k]) of
              (n', w', tr') \<Rightarrow>
                if has_more then sync_pages v svc c b ag (k + 1) n' w' tr'
                else Some (Returned n', w', tr'))"
  using assms
  by (subst sync_pages.simps) (simp add: read_prop_def js_or_def split: prod.splits)

lemma reconciled_cons:
  "reconciled_in_order v svc c a (r # rs) w =
     (fst (upsertExecution v svc c a r w)
        # fst (reconciled_in_order v svc c a rs (snd (upsertExecution v svc c a r w))),
      snd (reconciled_in_order v svc c a rs (snd (upsertExecution v svc c a r w))))"
  by (simp add: case_prod_unfold)

lemma reconciled_append:
  "reconciled_in_order v svc c a (xs @ ys) w =
     (fst (reconciled_in_order v svc c a xs w)
        @ fst (reconciled_in_order v svc c a ys (snd (reconciled_in_order v svc c a xs w))),
      snd (reconciled_in_order v svc c a ys (snd (reconciled_in_order v svc c a xs w))))"
  by (induction xs arbitrary: w) (simp_all add: case_prod_unfold)

lemma upsert_each_reconciled:
  "upsert_each v svc c a xs n w tr =
     (n + length (filter has_returned (fst (reconciled_in_order v svc c a xs w))),
      snd (reconciled_in_order v svc c a xs w),
      tr @ map Reconciled xs)"
proof (induction xs arbitrary: n w tr)
  case Nil then show ?case by simp
next
  case (Cons x xs)
  obtain out w' where u: "upsertExecution v svc c a x w = (out, w')"
    by (cases "upsertExecution v svc c a x w") auto
  show ?case using u Cons by (cases out) (simp_all add: case_prod_unfold)
qed

lemma upsert_keeps_keys:
  "executions w k \<noteq> None \<Longrightarrow> executions (snd (upsertExecution v svc c a r w)) k \<noteq> None"
  by (cases "truthy (executionId_of r)") (simp_all add: upsert_skip upsert_executions)

lemma reconciled_keeps_keys:
  "executions w k \<noteq> None \<Longrightarrow> executions (snd (reconciled_in_order v svc c a xs w)) k \<noteq> None"
proof (induction xs arbitrary: w)
  case Nil then show ?case by simp
next
  case (Cons x xs)
  from Cons.prems have "executions (snd (upsertExecution v svc c a x w)) k \<noteq> None"
    by (rule upsert_keeps_keys)
  then have "executions (snd (reconciled_in_order v svc c a xs (snd (upsertExecution v svc c a x w)))) k
               \<noteq> None"
    by (rule Cons.IH)
  then show ?case by (simp add: reconciled_cons del: reconciled_in_order.simps(2))
qed

lemma reconciled_stores:
  "r \<in> set xs \<Longrightarrow> truthy (executionId_of r) \<Longrightarrow>
   executions (snd (reconciled_in_order v svc c a xs w)) (executionId_of r) \<noteq> None"
proof (induction xs arbitrary: w)
  case Nil then show ?case by simp
next
  case (Cons x xs)
  show ?case
  proof (cases "r = x")
    case True
    have "executions (snd (upsertExecution v svc c a x w)) (executionId_of r) \<noteq> None"
      using True Cons.prems(2) by (simp add: upsert_executions)
    then have "executions (snd (reconciled_in_order v svc c a xs (snd (upsertExecution v svc c a x w))))
                 (executionId_of r) \<noteq> None"
      by (rule reconciled_keeps_keys)
    then show ?thesis by (simp add: reconciled_cons del: reconciled_in_order.simps(2))
  next
    case False
    with Cons show ?thesis by (simp add: reconciled_cons del: reconciled_in_order.simps(2))
  qed
qed

text \<open>
  Claim C7. When the list endpoint answers page 1 and page 2 with \<open>has_more: true\<close> and
  page 3 with \<open>has_more: false\<close>, \<open>syncExecutionsForAgent\<close> returns, and its calls are, in
  this order: the fetch of page 1, the reconciliation of each record of page 1 in the order
  received, the fetch of page 2, its records, the fetch of page 3, its records. There are
  exactly three fetches. The state it leaves is the one obtained by calling
  \<open>upsertExecution\<close> once on each record of the three pages, in that order, each call
  starting from the state the previous one left; the number it returns is the number of
  those calls that did not throw; and every record with an id is in the collection
  afterwards.
\<close>

theorem three_pages_in_order:
  assumes ag: "find_agent_by_bolna_id c b = Inr (Some ag)"
      and p1: "fetchExecutionsForAgent c b 1 50 = Inr (JObj p1)"
              "p1 ''data'' = Some (JArr d1)" "p1 ''has_more'' = Some (JBool True)"
      and p2: "fetchExecutionsForAgent c b 2 50 = Inr (JObj p2)"
              "p2 ''data'' = Some (JArr d2)" "p2 ''has_more'' = Some (JBool True)"
      and p3: "fetchExecutionsForAgent c b 3 50 = Inr (JObj p3)"
              "p3 ''data'' = Some (JArr d3)" "p3 ''has_more'' = Some (JBool False)"
  shows "\<exists>n w' tr outs.
           syncExecutionsForAgent v svc c b w = Some (n, w', tr) \<and>
           tr = [Fetched 1] @ map Reconciled d1 @ [Fetched 2] @ map Reconciled d2
                @ [Fetched 3] @ map Reconciled d3 \<and>
           length (filter is_fetch tr) = 3 \<and>
           reconciled_in_order v svc c (agent_oid ag) (d1 @ d2 @ d3) w = (outs, w') \<and>
           n = length (filter has_returned outs) \<and>
           (\<forall>r \<in> set (d1 @ d2 @ d3).
              truthy (executionId_of r) \<longrightarrow> executions w' (executionId_of r) \<noteq> None)"
proof -
  let ?a = "agent_oid ag"
  let ?R1 = "reconciled_in_order v svc c ?a d1 w"
  let ?R2 = "reconciled_in_order v svc c ?a d2 (snd ?R1)"
  let ?R3 = "reconciled_in_order v svc c ?a d3 (snd ?R2)"
  let ?n1 = "length (filter has_returned (fst ?R1))"
  let ?n2 = "?n1 + length (filter has_returned (fst ?R2))"
  let ?n3 = "?n2 + length (filter has_returned (fst ?R3))"
  let ?t1 = "[Fetched 1] @ map Reconciled d1"
  let ?t2 = "?t1 @ [Fetched 2] @ map Reconciled d2"
  let ?t3 = "?t2 @ [Fetched 3] @ map Reconciled d3"
  have s3: "sync_pages v svc c b ag 3 ?n2 (snd ?R2) ?t2 = Some (Returned ?n3, snd ?R3, ?t3)"
    using sync_page_step[OF p3, of v svc ag ?n2 "snd ?R2" ?t2]
    by (simp add: upsert_each_reconciled)
  have s2: "sync_pages v svc c b ag 2 ?n1 (snd ?R1) ?t1 = Some (Returned ?n3, snd ?R3, ?t3)"
    using sync_page_step[OF p2, of v svc ag ?n1 "snd ?R1" ?t1] s3
    by (simp add: upsert_each_reconciled)
  have s1: "sync_pages v svc c b ag 1 0 w [] = Some (Returned ?n3, snd ?R3, ?t3)"
    using sync_page_step[OF p1, of v svc ag 0 w "[]"] s2
    by (simp add: upsert_each_reconciled numeral_2_eq_2)
  have sync: "syncExecutionsForAgent v svc c b w = Some (?n3, snd ?R3, ?t3)"
    using ag s1 by (simp add: syncExecutionsForAgent_def)
  have nf: "filter is_fetch (map Reconciled xs) = []" for xs
    by (induction xs) auto
  have fetches: "length (filter is_fetch ?t3) = 3"
    by (simp add: nf)
  have all: "reconciled_in_order v svc c ?a (d1 @ d2 @ d3) w
               = (fst ?R1 @ fst ?R2 @ fst ?R3, snd ?R3)"
    by (simp add: reconciled_append)
  have stored: "\<forall>r \<in> set (d1 @ d2 @ d3).
      truthy (executionId_of r) \<longrightarrow> executions (snd ?R3) (executionId_of r) \<noteq> None"
  proof (intro ballI impI)
    fix r assume "r \<in> set (d1 @ d2 @ d3)" "truthy (executionId_of r)"
    then have "executions (snd (reconciled_in_order v svc c ?a (d1 @ d2 @ d3) w)) (executionId_of r)
                 \<noteq> None"
      by (rule reconciled_stores)
    then show "executions (snd ?R3) (executionId_of r) \<noteq> None" by (simp add: all)
  qed
  have "syncExecutionsForAgent v svc c b w = Some (?n3, snd ?R3, ?t3) \<and>
        ?t3 = [Fetched 1] @ map Reconciled d1 @ [Fetched 2] @ map Reconciled d2
                @ [Fetched 3] @ map Reconciled d3 \<and>
        length (filter is_fetch ?t3) = 3 \<and>
        reconciled_in_order v svc c ?a (d1 @ d2 @ d3) w = (fst ?R1 @ fst ?R2 @ fst ?R3, snd ?R3) \<and>
        ?n3 = length (filter has_returned (fst ?R1 @ fst ?R2 @ fst ?R3)) \<and>
        (\<forall>r \<in> set (d1 @ d2 @ d3).
           truthy (executionId_of r) \<longrightarrow> executions (snd ?R3) (executionId_of r) \<noteq> None)"
    using sync fetches all stored by simp
  then show ?thesis by blast
qed

lemma plain_record_id: "i \<noteq> [] \<Longrightarrow> executionId_of (remote_record i) = JStr i"
  by (simp add: executionId_of_def remote_record_def read_prop_def js_or_def)

lemma plain_record_upsert:
  assumes "i \<noteq> []"
  shows "upsertExecution v svc c a (remote_record i) w =
           (Returned (Some (written_doc c a (remote_record i) w)),
            w\<lparr>executions := (executions w)(JStr i \<mapsto> written_doc c a (remote_record i) w)\<rparr>)"
proof -
  have t: "transcript (written_doc c a (remote_record i) w) = JStr []"
    by (simp add: written_doc_def executionDoc_def remote_record_def read_prop_def js_or_def Let_def)
  have g: "get_prop (remote_record i) ''id'' = Inr (JStr i)"
    by (simp add: remote_record_def read_prop_def)
  have e: "read_prop (remote_record i) ''execution_id'' = JUndefined"
    by (simp add: remote_record_def read_prop_def)
  have j: "js_or (JStr i) JUndefined = JStr i" using assms by (simp add: js_or_def)
  have d: "executionDoc c a (remote_record i) (JStr i)
             (finalExtractedData (remote_record i) (executions w (JStr i)))
             (case executions w (JStr i) of None \<Rightarrow> new_oid c | Some existing \<Rightarrow> oid existing)
           = written_doc c a (remote_record i) w"
    using assms by (simp add: written_doc_def plain_record_id)
  show ?thesis
    using assms t by (simp add: upsertExecution_def g e j Let_def d)
qed

theorem three_pages_in_order_witness:
  "find_agent_by_bolna_id failing_sinks (JStr ''agent-1'') = Inr (Some sample_agent)
   \<and> fetchExecutionsForAgent failing_sinks (JStr ''agent-1'') 1 50
       = Inr (page [remote_record ''E1''] True)
   \<and> fetchExecutionsForAgent failing_sinks (JStr ''agent-1'') 2 50
       = Inr (page [remote_record ''E2'', remote_record ''E3''] True)
   \<and> fetchExecutionsForAgent failing_sinks (JStr ''agent-1'') 3 50
       = Inr (page [remote_record ''E4''] False)
   \<and> (\<exists>w'. syncExecutionsForAgent Custom offline_service failing_sinks (JStr ''agent-1'') empty_world
         = Some (4, w',
             [Fetched 1, Reconciled (remote_record ''E1''),
              Fetched 2, Reconciled (remote_record ''E2''), Reconciled (remote_record ''E3''),
              Fetched 3, Reconciled (remote_record ''E4'')])
       \<and> executions w' (JStr ''E1'') \<noteq> None \<and> executions w' (JStr ''E2'') \<noteq> None
       \<and> executions w' (JStr ''E3'') \<noteq> None \<and> executions w' (JStr ''E4'') \<noteq> None
       \<and> executions w' (JStr ''E5'') = None)"
proof -
  have a: "find_agent_by_bolna_id failing_sinks (JStr ''agent-1'') = Inr (Some sample_agent)"
    by (simp add: failing_sinks_def)
  have f1: "fetchExecutionsForAgent failing_sinks (JStr ''agent-1'') 1 50
       = Inr (JObj [''data'' \<mapsto> JArr [remote_record ''E1''], ''has_more'' \<mapsto> JBool True])"
    by (simp add: failing_sinks_def page_def)
  have f2: "fetchExecutionsForAgent failing_sinks (JStr ''agent-1'') 2 50
       = Inr (JObj [''data'' \<mapsto> JArr [remote_record ''E2'', remote_record ''E3''],
                    ''has_more'' \<mapsto> JBool True])"
    by (simp add: failing_sinks_def page_def)
  have f3: "fetchExecutionsForAgent failing_sinks (JStr ''agent-1'') 3 50
       = Inr (JObj [''data'' \<mapsto> JArr [remote_record ''E4''], ''has_more'' \<mapsto> JBool False])"
    by (simp add: failing_sinks_def page_def)
  have d1: "[''data'' \<mapsto> JArr [remote_record ''E1''], ''has_more'' \<mapsto> JBool True] ''data''
              = Some (JArr [remote_record ''E1''])"
    and m1: "[''data'' \<mapsto> JArr [remote_record ''E1''], ''has_more'' \<mapsto> JBool True] ''has_more''
              = Some (JBool True)"
    and d2: "[''data'' \<mapsto> JArr [remote_record ''E2'', remote_record ''E3''],
              ''has_more'' \<mapsto> JBool True] ''data''
              = Some (JArr [remote_record ''E2'', remote_record ''E3''])"
    and m2: "[''data'' \<mapsto> JArr [remote_record ''E2'', remote_record ''E3''],
              ''has_more'' \<mapsto> JBool True] ''has_more'' = Some (JBool True)"
    and d3: "[''data'' \<mapsto> JArr [remote_record ''E4''], ''has_more'' \<mapsto> JBool False] ''data''
              = Some (JArr [remote_record ''E4''])"
    and m3: "[''data'' \<mapsto> JArr [remote_record ''E4''], ''has_more'' \<mapsto> JBool False] ''has_more''
              = Some (JBool False)"
    by simp_all
  let ?ds = "[remote_record ''E1''] @ [remote_record ''E2'', remote_record ''E3''] @ [remote_record ''E4'']"
  let ?R = "reconciled_in_order Custom offline_service failing_sinks (agent_oid sample_agent) ?ds empty_world"
  have outs: "length (filter has_returned (fst ?R)) = 4"
    by (simp add: reconciled_cons plain_record_upsert del: reconciled_in_order.simps(2))
  have none: "executions (snd ?R) (JStr ''E5'') = None"
    by (simp add: reconciled_cons plain_record_upsert empty_world_def del: reconciled_in_order.simps(2))
  from three_pages_in_order[OF a f1 d1 m1 f2 d2 m2 f3 d3 m3,
      where v = Custom and svc = offline_service and w = empty_world]
  obtain n w' tr outs where r:
    "syncExecutionsForAgent Custom offline_service failing_sinks (JStr ''agent-1'') empty_world
       = Some (n, w', tr)"
    "tr = [Fetched 1] @ map Reconciled [remote_record ''E1''] @ [Fetched 2]
          @ map Reconciled [remote_record ''E2'', remote_record ''E3'']
          @ [Fetched 3] @ map Reconciled [remote_record ''E4'']"
    "?R = (outs, w')"
    "n = length (filter has_returned outs)"
    "\<forall>r \<in> set ?ds. truthy (executionId_of r) \<longrightarrow> executions w' (executionId_of r) \<noteq> None"
    by blast
  have n: "n = 4" using r(3,4) outs by simp
  have w5: "executions w' (JStr ''E5'') = None" using r(3) none by simp
  have keys: "executions w' (JStr ''E1'') \<noteq> None" "executions w' (JStr ''E2'') \<noteq> None"
             "executions w' (JStr ''E3'') \<noteq> None" "executions w' (JStr ''E4'') \<noteq> None"
    using r(5) by (simp_all add: plain_record_id)
  have "syncExecutionsForAgent Custom offline_service failing_sinks (JStr ''agent-1'') empty_world
         = Some (4, w',
             [Fetched 1, Reconciled (remote_record ''E1''),
              Fetched 2, Reconciled (remote_record ''E2''), Reconciled (remote_record ''E3''),
              Fetched 3, Reconciled (remote_record ''E4'')])"
    using r(1,2) n by simp
  with keys w5 a f1 f2 f3 show ?thesis by (auto simp add: page_def)
qed

text \<open>
  When the agent is not in the local store, \<open>syncExecutionsForAgent\<close> returns \<open>0\<close>: it
  fetches no page and leaves the state unchanged.
\<close>

theorem unknown_agent_syncs_nothing:
  assumes "find_agent_by_bolna_id c bolnaAgentId = Inr None"
  shows "syncExecutionsForAgent v svc c bolnaAgentId w = Some (0, w, [])"
  using assms by (simp add: syncExecutionsForAgent_def)

theorem unknown_agent_syncs_nothing_witness:
  "find_agent_by_bolna_id (failing_sinks\<lparr>find_agent_by_bolna_id := (\<lambda>i. Inr None)\<rparr>) (JStr ''agent-9'')
     = Inr None
   \<and> syncExecutionsForAgent Custom offline_service
        (failing_sinks\<lparr>find_agent_by_bolna_id := (\<lambda>i. Inr None)\<rparr>) (JStr ''agent-9'') empty_world
     = Some (0, empty_world, [])"
proof -
  have h: "find_agent_by_bolna_id (failing_sinks\<lparr>find_agent_by_bolna_id := (\<lambda>i. Inr None)\<rparr>)
             (JStr ''agent-9'') = Inr None"
    by simp
  from unknown_agent_syncs_nothing[OF h, of Custom offline_service empty_world]
  show ?thesis using h by simp
qed

section \<open>Properties of the token encryption\<close>








































end
